theory Spec2Isabelle
  imports Main "HOL-Library.AList"
begin

section \<open>Values, rows and the primary-key schema\<close>

text \<open>
  The values that can sit in a row or in a request. A Number is \<open>Num n\<close> for an integer
  \<open>n\<close> that a double holds exactly, one of the two infinities or \<open>NaN\<close>: no code path of
  \<^verbatim>\<open>Table.js\<close> computes with fractions. A string is held as its UTF-8 bytes. \<open>Long\<close>
  is the SDK's 64-bit integer object, \<open>INF_MIN\<close> and \<open>INF_MAX\<close> are the SDK's range
  sentinels. A plain object is the list of its own enumerable properties in enumeration
  order (the order of creation; that JavaScript enumerates integer-like names first plays
  no role in the statements below).
\<close>

datatype jsval =
    Undefined
  | Null
  | Bool bool
  | Num int
  | NaN
  | PosInfinity
  | NegInfinity
  | Str string
  | Long int
  | INF_MIN
  | INF_MAX
  | Arr "jsval list"
  | Obj "(string \<times> jsval) list"

text \<open>
  A row is a plain object. Where the source accepts a row argument that may be missing
  (\<^verbatim>\<open>if (!row)\<close>, \<^verbatim>\<open>obj = obj || {}\<close>), the argument is a \<open>row option\<close> and
  \<open>None\<close> stands for every falsy argument (absent, \<^verbatim>\<open>undefined\<close>, \<^verbatim>\<open>null\<close>,
  \<^verbatim>\<open>false\<close>, \<^verbatim>\<open>0\<close>, the empty string): the source only ever tests such an argument
  for truthiness. Property names shadowing members of \<^verbatim>\<open>Object.prototype\<close> are not
  modelled.
\<close>

type_synonym row = "(string \<times> jsval) list"

text \<open>\<^verbatim>\<open>item.type === Store.Long\<close>: a descriptor's type is the SDK's Long or anything else.\<close>

datatype keytype = StoreLong | OtherType string

record descriptor =
  name :: string
  type :: keytype

record table =
  tableName :: string
  primaryKeys :: "descriptor list"

datatype error =
    InvalidParam          \<comment> \<open>the rejection of a falsy argument\<close>
  | TypeError             \<comment> \<open>a property read or write on \<^verbatim>\<open>undefined\<close>\<close>
  | LibError string       \<comment> \<open>an exception thrown by the SDK's Long\<close>
  | BackendError string   \<comment> \<open>a rejection of the backend client\<close>

text \<open>
  What the code takes from its host and from the SDK, and does not define itself:
  the built-in \<^verbatim>\<open>parseInt\<close>, \<^verbatim>\<open>Store.Long.fromNumber\<close> (which may throw) and
  \<^verbatim>\<open>String.prototype.toLocaleUpperCase\<close>, which depends on the host's locale.
\<close>

record host =
  parseInt :: "jsval \<Rightarrow> jsval"
  Long_fromNumber :: "jsval \<Rightarrow> error + jsval"
  toLocaleUpperCase :: "string \<Rightarrow> string"

definition hasOwnProperty :: "row \<Rightarrow> string \<Rightarrow> bool" where
  "hasOwnProperty obj key = (key \<in> set (map fst obj))"

text \<open>\<^verbatim>\<open>obj[key]\<close>\<close>

definition get_prop :: "row \<Rightarrow> string \<Rightarrow> jsval" where
  "get_prop obj key = (case map_of obj key of None \<Rightarrow> Undefined | Some v \<Rightarrow> v)"

text \<open>\<^verbatim>\<open>obj || {}\<close>\<close>

definition or_empty :: "row option \<Rightarrow> row" where
  "or_empty obj = (case obj of None \<Rightarrow> [] | Some r \<Rightarrow> r)"

text \<open>\<^verbatim>\<open>xs.forEach(f)\<close> where the callback updates captured variables and may throw.\<close>

fun forEach :: "('a \<Rightarrow> 'st \<Rightarrow> error + 'st) \<Rightarrow> 'a list \<Rightarrow> 'st \<Rightarrow> error + 'st" where
  "forEach f [] st = Inr st"
| "forEach f (x # xs) st = (case f x st of Inl e \<Rightarrow> Inl e | Inr st' \<Rightarrow> forEach f xs st')"

section \<open>Row to parameters\<close>

text \<open>The callback of \<^verbatim>\<open>__parseRowToPrimaryKey\<close>; the state is the array \<^verbatim>\<open>arr\<close>.\<close>

definition parseRowToPrimaryKey_item ::
  "host \<Rightarrow> row \<Rightarrow> jsval \<Rightarrow> descriptor \<Rightarrow> (string \<times> jsval) list \<Rightarrow> error + (string \<times> jsval) list" where
  "parseRowToPrimaryKey_item h obj defaultValue item arr =
     (let key = name item; value = get_prop obj key in
      if hasOwnProperty obj key then
        (if type item = StoreLong then
           (case Long_fromNumber h (parseInt h value) of
              Inl e \<Rightarrow> Inl e
            | Inr value' \<Rightarrow> Inr (arr @ [(key, value')]))
         else Inr (arr @ [(key, value)]))
      else if defaultValue \<noteq> Undefined then Inr (arr @ [(key, defaultValue)])
      else Inr arr)"

text \<open>A missing second argument is \<open>Undefined\<close>.\<close>

definition parseRowToPrimaryKey ::
  "host \<Rightarrow> table \<Rightarrow> row option \<Rightarrow> jsval \<Rightarrow> error + (string \<times> jsval) list" where
  "parseRowToPrimaryKey h t obj defaultValue =
     forEach (parseRowToPrimaryKey_item h (or_empty obj) defaultValue) (primaryKeys t) []"

definition parseRowToAttributeColumns :: "table \<Rightarrow> row option \<Rightarrow> (string \<times> jsval) list" where
  "parseRowToAttributeColumns t obj =
     (let ignoreKeys = map name (primaryKeys t) in
      map (\<lambda>key. (key, get_prop (or_empty obj) key))
        (filter (\<lambda>key. key \<notin> set ignoreKeys) (map fst (or_empty obj))))"

text \<open>\<^verbatim>\<open>[{ PUT: putColumns }]\<close>, every column a one-property object.\<close>

definition parseRowToUpdateOfAttributeColumns :: "table \<Rightarrow> row option \<Rightarrow> (string \<times> jsval) list" where
  "parseRowToUpdateOfAttributeColumns t obj =
     (let putColumns = parseRowToAttributeColumns t obj in
      [(''PUT'', Arr (map (\<lambda>(k, v). Obj [(k, v)]) putColumns))])"

text \<open>
  \<^verbatim>\<open>validateRow\<close>: the callback's \<^verbatim>\<open>return false\<close> does not stop \<^verbatim>\<open>forEach\<close>;
  the state is \<^verbatim>\<open>result\<close>.
\<close>

definition validateRow :: "table \<Rightarrow> row option \<Rightarrow> bool" where
  "validateRow t row =
     (case row of
        None \<Rightarrow> False
      | Some r \<Rightarrow>
          fold (\<lambda>item result. if \<not> hasOwnProperty r (name item) then False else result)
            (primaryKeys t) True)"

section \<open>Write-request builders\<close>

datatype RowExistenceExpectation = IGNORE | EXPECT_EXIST | EXPECT_NOT_EXIST

text \<open>\<^verbatim>\<open>new Store.Condition(expectation, null)\<close>\<close>

datatype Condition = Condition RowExistenceExpectation "jsval"

datatype ReturnType = Primarykey

text \<open>
  The parameter object of a single-row write, and (with \<^verbatim>\<open>tableName\<close> deleted and
  \<^verbatim>\<open>type\<close> set) an item of a batch. A field the builder does not set is \<open>None\<close>.
  Every element of \<open>primaryKey\<close> and of \<open>attributeColumns\<close> is a one-property object
  \<^verbatim>\<open>{[key]: value}\<close>, kept as the pair.
\<close>

record write_params =
  w_tableName :: "string option"
  condition :: Condition
  primaryKey :: "(string \<times> jsval) list"
  attributeColumns :: "(string \<times> jsval) list option"
  updateOfAttributeColumns :: "(string \<times> jsval) list option"
  returnContent :: "ReturnType option"
  w_type :: "string option"

definition buildPutRowParams :: "host \<Rightarrow> table \<Rightarrow> row option \<Rightarrow> Condition option \<Rightarrow> error + write_params" where
  "buildPutRowParams h t row cond =
     (let cond' = (case cond of None \<Rightarrow> Condition IGNORE Null | Some c \<Rightarrow> c) in
      case parseRowToPrimaryKey h t row Undefined of
        Inl e \<Rightarrow> Inl e
      | Inr pk \<Rightarrow>
          Inr \<lparr> w_tableName = Some (tableName t),
                condition = cond',
                primaryKey = pk,
                attributeColumns = Some (parseRowToAttributeColumns t row),
                updateOfAttributeColumns = None,
                returnContent = Some Primarykey,
                w_type = None \<rparr>)"

definition buildInsertRowParams :: "host \<Rightarrow> table \<Rightarrow> row option \<Rightarrow> Condition option \<Rightarrow> error + write_params" where
  "buildInsertRowParams h t row cond =
     (let cond' = (case cond of None \<Rightarrow> Condition EXPECT_NOT_EXIST Null | Some c \<Rightarrow> c) in
      buildPutRowParams h t row (Some cond'))"

definition buildDeleteRowParams :: "host \<Rightarrow> table \<Rightarrow> row option \<Rightarrow> Condition option \<Rightarrow> error + write_params" where
  "buildDeleteRowParams h t row cond =
     (let cond' = (case cond of None \<Rightarrow> Condition IGNORE Null | Some c \<Rightarrow> c) in
      case parseRowToPrimaryKey h t row Undefined of
        Inl e \<Rightarrow> Inl e
      | Inr pk \<Rightarrow>
          Inr \<lparr> w_tableName = Some (tableName t),
                condition = cond',
                primaryKey = pk,
                attributeColumns = None,
                updateOfAttributeColumns = None,
                returnContent = None,
                w_type = None \<rparr>)"

definition buildUpdateRowParams :: "host \<Rightarrow> table \<Rightarrow> row option \<Rightarrow> Condition option \<Rightarrow> error + write_params" where
  "buildUpdateRowParams h t row cond =
     (let cond' = (case cond of None \<Rightarrow> Condition EXPECT_EXIST Null | Some c \<Rightarrow> c);
          attributeColumns' = parseRowToUpdateOfAttributeColumns t row in
      case parseRowToPrimaryKey h t row Undefined of
        Inl e \<Rightarrow> Inl e
      | Inr pk \<Rightarrow>
          Inr \<lparr> w_tableName = Some (tableName t),
                condition = cond',
                primaryKey = pk,
                attributeColumns = Some attributeColumns',
                updateOfAttributeColumns = Some attributeColumns',
                returnContent = Some Primarykey,
                w_type = None \<rparr>)"

section \<open>Batch translator\<close>

text \<open>
  The callback of \<^verbatim>\<open>rows.forEach\<close> in \<^verbatim>\<open>__parseObjectToBatchWriteRows\<close>: the
  \<^verbatim>\<open>switch (op)\<close> with its four cases and no default; the state is \<^verbatim>\<open>writeRows\<close>.
\<close>

definition batch_item :: "host \<Rightarrow> table \<Rightarrow> string \<Rightarrow> row option \<Rightarrow> write_params list \<Rightarrow> error + write_params list" where
  "batch_item h t op row writeRows =
     (if op = ''PUT'' then
        (case buildPutRowParams h t row None of
           Inl e \<Rightarrow> Inl e
         | Inr item \<Rightarrow> Inr (writeRows @ [item\<lparr>w_type := Some ''PUT'', w_tableName := None\<rparr>]))
      else if op = ''INSERT'' then
        (case buildInsertRowParams h t row None of
           Inl e \<Rightarrow> Inl e
         | Inr item \<Rightarrow> Inr (writeRows @ [item\<lparr>w_type := Some ''PUT'', w_tableName := None\<rparr>]))
      else if op = ''UPDATE'' then
        (case buildUpdateRowParams h t row None of
           Inl e \<Rightarrow> Inl e
         | Inr item \<Rightarrow> Inr (writeRows @ [item\<lparr>w_type := Some ''UPDATE'', w_tableName := None\<rparr>]))
      else if op = ''DELETE'' then
        (case buildDeleteRowParams h t row None of
           Inl e \<Rightarrow> Inl e
         | Inr item \<Rightarrow> Inr (writeRows @ [item\<lparr>w_type := Some ''DELETE'', w_tableName := None\<rparr>]))
      else Inr writeRows)"

text \<open>
  An operation map is an object from labels to arrays of rows; a value that is missing,
  \<^verbatim>\<open>null\<close> or otherwise falsy is \<open>None\<close>. The body of \<^verbatim>\<open>for (let key in obj)\<close>:
\<close>

type_synonym opmap = "(string \<times> row option list option) list"

definition batch_key :: "host \<Rightarrow> table \<Rightarrow> opmap \<Rightarrow> string \<Rightarrow> write_params list \<Rightarrow> error + write_params list" where
  "batch_key h t obj key writeRows =
     (let op = toLocaleUpperCase h key;
          rows = (case map_of obj key of Some (Some rs) \<Rightarrow> rs | _ \<Rightarrow> []) in
      if length rows = 0 then Inr writeRows
      else forEach (batch_item h t op) rows writeRows)"

definition parseObjectToBatchWriteRows :: "host \<Rightarrow> table \<Rightarrow> opmap \<Rightarrow> error + write_params list" where
  "parseObjectToBatchWriteRows h t obj = forEach (batch_key h t obj) (map fst obj) []"

section \<open>Data and parameters back to rows\<close>

text \<open>
  \<^verbatim>\<open>row[k] = v\<close> and \<^verbatim>\<open>Object.assign(row, {[k]: v})\<close>, one after the other: an
  existing property keeps its place, a new one goes to the end.
\<close>

definition assign_all :: "row \<Rightarrow> (string \<times> jsval) list \<Rightarrow> row" where
  "assign_all row items = fold (\<lambda>(k, v) r. AList.update k v r) items row"

text \<open>
  An item of a backend response: \<^verbatim>\<open>primaryKey\<close> holds \<^verbatim>\<open>{name, value}\<close> and
  \<^verbatim>\<open>attributes\<close> holds \<^verbatim>\<open>{columnName, columnValue}\<close> objects; a field that is not
  an array is \<open>None\<close>.
\<close>

record data_item =
  data_primaryKey :: "(string \<times> jsval) list option"
  data_attributes :: "(string \<times> jsval) list option"

definition parseDataToRow :: "data_item \<Rightarrow> row" where
  "parseDataToRow data =
     (let row = [];
          row = (case data_primaryKey data of None \<Rightarrow> row | Some pk \<Rightarrow> assign_all row pk);
          row = (case data_attributes data of None \<Rightarrow> row | Some attrs \<Rightarrow> assign_all row attrs)
      in row)"

definition parseParamsToRow :: "write_params \<Rightarrow> row" where
  "parseParamsToRow params =
     (let row = [];
          row = assign_all row (primaryKey params);
          row = (case attributeColumns params of None \<Rightarrow> row | Some cols \<Rightarrow> assign_all row cols)
      in row)"

text \<open>The object returned by a batch write; the fields are its four arrays.\<close>

record buckets =
  put_rows :: "row list"
  insert_rows :: "row list"
  update_rows :: "row list"
  delete_rows :: "row list"

definition bucket_item :: "write_params \<Rightarrow> buckets \<Rightarrow> buckets" where
  "bucket_item item obj =
     (let row = parseParamsToRow item in
      if w_type item = Some ''PUT'' then obj\<lparr>put_rows := put_rows obj @ [row]\<rparr>
      else if w_type item = Some ''INSERT'' then obj\<lparr>insert_rows := insert_rows obj @ [row]\<rparr>
      else if w_type item = Some ''UPDATE'' then obj\<lparr>update_rows := update_rows obj @ [row]\<rparr>
      else if w_type item = Some ''DELETE'' then obj\<lparr>delete_rows := delete_rows obj @ [row]\<rparr>
      else obj)"

definition parseBatchWriteRowsToObject :: "write_params list \<Rightarrow> buckets" where
  "parseBatchWriteRowsToObject writeRows =
     fold bucket_item writeRows
       \<lparr>put_rows = [], insert_rows = [], update_rows = [], delete_rows = []\<rparr>"

section \<open>The backend client\<close>

datatype Direction = FORWARD | BACKWARD

record range_params =
  r_tableName :: string
  direction :: Direction
  inclusiveStartPrimaryKey :: "(string \<times> jsval) list"
  exclusiveEndPrimaryKey :: "(string \<times> jsval) list"
  startColumn :: jsval
  endColumn :: jsval
  limit :: int

text \<open>
  \<^verbatim>\<open>{rows, next_start_primary_key}\<close>: a field the backend leaves out (or sets to
  \<^verbatim>\<open>null\<close>) is \<open>None\<close>; the continuation key holds \<^verbatim>\<open>{name, value}\<close> objects.
\<close>

record range_response =
  resp_rows :: "data_item list option"
  next_start_primary_key :: "(string \<times> jsval) list option"

record get_params =
  g_tableName :: string
  g_primaryKey :: "(string \<times> jsval) list"
  g_startColumn :: jsval
  g_endColumn :: jsval

text \<open>
  \<^verbatim>\<open>{tables: [{tableName, rows}]}\<close>, and the answer \<^verbatim>\<open>data.tables\<close>, which the code
  indexes by table name: per item, whether \<^verbatim>\<open>isOk\<close> is truthy.
\<close>

type_synonym batch_params = "(string \<times> write_params list) list"
type_synonym batch_response = "(string \<times> bool list) list"

datatype call =
    PutRow write_params
  | DeleteRow write_params
  | UpdateRow write_params
  | BatchWriteRow batch_params
  | GetRow get_params
  | GetRange range_params

text \<open>
  The client is any deterministic machine over a state \<open>'s\<close>: a call answers with a
  rejection (\<open>Inl\<close>) or a response, and a new state. The response of \<^verbatim>\<open>getRow\<close> is
  its \<^verbatim>\<open>row\<close>: \<open>None\<close> is the object without any property, \<open>Some\<close> an object
  with properties, of which \<^verbatim>\<open>primaryKey\<close> and \<^verbatim>\<open>attributes\<close> are read.
\<close>

record 's store =
  store_putRow :: "'s \<Rightarrow> write_params \<Rightarrow> (error + jsval) \<times> 's"
  store_deleteRow :: "'s \<Rightarrow> write_params \<Rightarrow> (error + jsval) \<times> 's"
  store_updateRow :: "'s \<Rightarrow> write_params \<Rightarrow> (error + jsval) \<times> 's"
  store_batchWriteRow :: "'s \<Rightarrow> batch_params \<Rightarrow> (error + batch_response) \<times> 's"
  store_getRow :: "'s \<Rightarrow> get_params \<Rightarrow> (error + data_item option) \<times> 's"
  store_getRange :: "'s \<Rightarrow> range_params \<Rightarrow> (error + range_response) \<times> 's"

text \<open>The backend's state together with the calls issued so far, oldest first.\<close>

record 's world =
  bstate :: 's
  calls :: "call list"

definition issue :: "('s \<Rightarrow> 'p \<Rightarrow> (error + 'r) \<times> 's) \<Rightarrow> ('p \<Rightarrow> call) \<Rightarrow> 'p \<Rightarrow> 's world \<Rightarrow> (error + 'r) \<times> 's world" where
  "issue f tag params w =
     (case f (bstate w) params of
        (r, s') \<Rightarrow> (r, \<lparr>bstate = s', calls = calls w @ [tag params]\<rparr>))"

section \<open>The table facade\<close>

text \<open>
  An operation returns a promise; here it returns the promise's outcome (\<open>Inl\<close> a rejection
  or an exception thrown while the request was built) and the world after it.
\<close>

definition put :: "host \<Rightarrow> table \<Rightarrow> 's store \<Rightarrow> row option \<Rightarrow> 's world \<Rightarrow> (error + row option) \<times> 's world" where
  "put h t be row w =
     (if row = None then (Inl InvalidParam, w)
      else case buildPutRowParams h t row None of
        Inl e \<Rightarrow> (Inl e, w)
      | Inr params \<Rightarrow>
          (case issue (store_putRow be) PutRow params w of
             (Inl e, w') \<Rightarrow> (Inl e, w')
           | (Inr _, w') \<Rightarrow> (Inr row, w')))"

definition insert_row :: "host \<Rightarrow> table \<Rightarrow> 's store \<Rightarrow> row option \<Rightarrow> 's world \<Rightarrow> (error + row option) \<times> 's world" where
  "insert_row h t be row w =
     (if row = None then (Inl InvalidParam, w)
      else case buildInsertRowParams h t row None of
        Inl e \<Rightarrow> (Inl e, w)
      | Inr params \<Rightarrow>
          (case issue (store_putRow be) PutRow params w of
             (Inl e, w') \<Rightarrow> (Inl e, w')
           | (Inr _, w') \<Rightarrow> (Inr row, w')))"

definition delete_row :: "host \<Rightarrow> table \<Rightarrow> 's store \<Rightarrow> row option \<Rightarrow> 's world \<Rightarrow> (error + row option) \<times> 's world" where
  "delete_row h t be row w =
     (if row = None then (Inl InvalidParam, w)
      else case buildDeleteRowParams h t row None of
        Inl e \<Rightarrow> (Inl e, w)
      | Inr params \<Rightarrow>
          (case issue (store_deleteRow be) DeleteRow params w of
             (Inl e, w') \<Rightarrow> (Inl e, w')
           | (Inr _, w') \<Rightarrow> (Inr row, w')))"

text \<open>\<^verbatim>\<open>update\<close> resolves with the backend's own response.\<close>

definition update_row :: "host \<Rightarrow> table \<Rightarrow> 's store \<Rightarrow> row option \<Rightarrow> 's world \<Rightarrow> (error + jsval) \<times> 's world" where
  "update_row h t be row w =
     (if row = None then (Inl InvalidParam, w)
      else case buildUpdateRowParams h t row None of
        Inl e \<Rightarrow> (Inl e, w)
      | Inr params \<Rightarrow> issue (store_updateRow be) UpdateRow params w)"

text \<open>\<^verbatim>\<open>options = options || {}\<close>: the two columns of a missing options object are \<open>Undefined\<close>.\<close>

record get_options =
  go_startColumn :: jsval
  go_endColumn :: jsval

text \<open>
  \<^verbatim>\<open>get\<close>: a response row without any property (\<^verbatim>\<open>Object.keys(row).length === 0\<close>)
  gives \<^verbatim>\<open>null\<close>, here \<open>None\<close>; every other response row is converted, also one
  whose \<^verbatim>\<open>primaryKey\<close> and \<^verbatim>\<open>attributes\<close> are not arrays.
\<close>

definition get :: "host \<Rightarrow> table \<Rightarrow> 's store \<Rightarrow> row option \<Rightarrow> get_options option \<Rightarrow> 's world \<Rightarrow> (error + row option) \<times> 's world" where
  "get h t be row options w =
     (if row = None then (Inl InvalidParam, w)
      else
        let options' = (case options of
                          None \<Rightarrow> \<lparr>go_startColumn = Undefined, go_endColumn = Undefined\<rparr>
                        | Some opts \<Rightarrow> opts) in
        case parseRowToPrimaryKey h t row (Str []) of
          Inl e \<Rightarrow> (Inl e, w)
        | Inr pk \<Rightarrow>
            let params = \<lparr> g_tableName = tableName t, g_primaryKey = pk,
                           g_startColumn = go_startColumn options',
                           g_endColumn = go_endColumn options' \<rparr> in
            (case issue (store_getRow be) GetRow params w of
               (Inl e, w') \<Rightarrow> (Inl e, w')
             | (Inr None, w') \<Rightarrow> (Inr None, w')
             | (Inr (Some data), w') \<Rightarrow> (Inr (Some (parseDataToRow data)), w')))"

text \<open>
  \<^verbatim>\<open>batchWrite\<close>: \<^verbatim>\<open>arr[i]\<close> is read once per built item, so a response without an
  entry for the table raises only when there is an item; an item beyond the end of
  \<^verbatim>\<open>arr\<close> counts as failed.
\<close>

definition batchWrite :: "host \<Rightarrow> table \<Rightarrow> 's store \<Rightarrow> opmap \<Rightarrow> 's world \<Rightarrow> (error + buckets) \<times> 's world" where
  "batchWrite h t be batchOpData w =
     (case parseObjectToBatchWriteRows h t batchOpData of
        Inl e \<Rightarrow> (Inl e, w)
      | Inr rows \<Rightarrow>
          let params = [(tableName t, rows)] in
          (case issue (store_batchWriteRow be) BatchWriteRow params w of
             (Inl e, w') \<Rightarrow> (Inl e, w')
           | (Inr data, w') \<Rightarrow>
               (case map_of data (tableName t) of
                  None \<Rightarrow> if rows = [] then (Inr (parseBatchWriteRowsToObject []), w')
                          else (Inl TypeError, w')
                | Some arr \<Rightarrow>
                    let rows' = map fst (filter (\<lambda>(item, i). i < length arr \<and> arr ! i)
                                           (zip rows [0..<length rows]))
                    in (Inr (parseBatchWriteRowsToObject rows'), w'))))"

text \<open>The rows argument of a batch operation: \<open>None\<close> when falsy, else the array.\<close>

definition batchPut :: "host \<Rightarrow> table \<Rightarrow> 's store \<Rightarrow> row option list option \<Rightarrow> 's world \<Rightarrow> (error + buckets) \<times> 's world" where
  "batchPut h t be rows w =
     (case rows of
        None \<Rightarrow> (Inl InvalidParam, w)
      | Some rs \<Rightarrow> if length rs = 0 then (Inl InvalidParam, w)
                   else batchWrite h t be [(''put'', rows)] w)"

definition batchInsert :: "host \<Rightarrow> table \<Rightarrow> 's store \<Rightarrow> row option list option \<Rightarrow> 's world \<Rightarrow> (error + buckets) \<times> 's world" where
  "batchInsert h t be rows w =
     (case rows of
        None \<Rightarrow> (Inl InvalidParam, w)
      | Some rs \<Rightarrow> if length rs = 0 then (Inl InvalidParam, w)
                   else batchWrite h t be [(''insert'', rows)] w)"

definition batchDelete :: "host \<Rightarrow> table \<Rightarrow> 's store \<Rightarrow> row option list option \<Rightarrow> 's world \<Rightarrow> (error + buckets) \<times> 's world" where
  "batchDelete h t be rows w =
     (case rows of
        None \<Rightarrow> (Inl InvalidParam, w)
      | Some rs \<Rightarrow> if length rs = 0 then (Inl InvalidParam, w)
                   else batchWrite h t be [(''delete'', rows)] w)"

definition batchUpdate :: "host \<Rightarrow> table \<Rightarrow> 's store \<Rightarrow> row option list option \<Rightarrow> 's world \<Rightarrow> (error + buckets) \<times> 's world" where
  "batchUpdate h t be rows w =
     (case rows of
        None \<Rightarrow> (Inl InvalidParam, w)
      | Some rs \<Rightarrow> if length rs = 0 then (Inl InvalidParam, w)
                   else batchWrite h t be [(''update'', rows)] w)"

section \<open>Pagination\<close>







text \<open>
  The options of \<^verbatim>\<open>select\<close>; a field the caller leaves out is \<open>None\<close> and takes the
  default of the \<^verbatim>\<open>Object.assign\<close>. Page and limit are integers.
\<close>

record select_options =
  so_where :: "row option"
  so_limit :: "int option"
  so_page :: "int option"
  so_startColumn :: "jsval option"
  so_endColumn :: "jsval option"

text \<open>The first request of \<^verbatim>\<open>select\<close>.\<close>

definition select_params :: "host \<Rightarrow> table \<Rightarrow> select_options \<Rightarrow> error + range_params" where
  "select_params h t options =
     (let o_where = (case so_where options of None \<Rightarrow> [] | Some r \<Rightarrow> r);
          o_limit = (case so_limit options of None \<Rightarrow> 10 | Some l \<Rightarrow> l);
          o_page = (case so_page options of None \<Rightarrow> 1 | Some p \<Rightarrow> p);
          o_startColumn = (case so_startColumn options of None \<Rightarrow> Null | Some c \<Rightarrow> c);
          o_endColumn = (case so_endColumn options of None \<Rightarrow> Null | Some c \<Rightarrow> c);
          page = (if o_page \<le> 0 then 1 else o_page);
          isFirst = (page = 1);
          offset = (page - 1) * o_limit in
      case parseRowToPrimaryKey h t (Some o_where) INF_MIN of
        Inl e \<Rightarrow> Inl e
      | Inr startKey \<Rightarrow>
     (case parseRowToPrimaryKey h t (Some []) INF_MAX of
        Inl e \<Rightarrow> Inl e
      | Inr endKey \<Rightarrow>
          Inr \<lparr> r_tableName = tableName t,
                direction = FORWARD,
                inclusiveStartPrimaryKey = startKey,
                exclusiveEndPrimaryKey = endKey,
                startColumn = (if isFirst then o_startColumn else Str ''_''),
                endColumn = (if isFirst then o_endColumn else Str ''__''),
                limit = (if isFirst then o_limit else offset) \<rparr>))"

definition select :: "host \<Rightarrow> table \<Rightarrow> 's store \<Rightarrow> select_options \<Rightarrow> 's world \<Rightarrow> (error + row list) \<times> 's world" where
  "select h t be options w =
     (let o_limit = (case so_limit options of None \<Rightarrow> 10 | Some l \<Rightarrow> l);
          o_page = (case so_page options of None \<Rightarrow> 1 | Some p \<Rightarrow> p);
          o_startColumn = (case so_startColumn options of None \<Rightarrow> Null | Some c \<Rightarrow> c);
          o_endColumn = (case so_endColumn options of None \<Rightarrow> Null | Some c \<Rightarrow> c);
          page = (if o_page \<le> 0 then 1 else o_page);
          isFirst = (page = 1) in
      case select_params h t options of
        Inl e \<Rightarrow> (Inl e, w)
      | Inr params \<Rightarrow>
          (case issue (store_getRange be) GetRange params w of
             (Inl e, w') \<Rightarrow> (Inl e, w')
           | (Inr data, w') \<Rightarrow>
               if isFirst then
                 (case resp_rows data of
                    None \<Rightarrow> (Inl TypeError, w')
                  | Some rs \<Rightarrow> (Inr (map parseDataToRow rs), w'))
               else
                 (case next_start_primary_key data of
                    Some nk \<Rightarrow>
                      let params' = params\<lparr> startColumn := o_startColumn,
                                            endColumn := o_endColumn,
                                            limit := o_limit,
                                            inclusiveStartPrimaryKey := nk \<rparr> in
                      (case issue (store_getRange be) GetRange params' w' of
                         (Inl e, w'') \<Rightarrow> (Inl e, w'')
                       | (Inr data', w'') \<Rightarrow>
                           (Inr (map parseDataToRow
                                   (case resp_rows data' of None \<Rightarrow> [] | Some rs \<Rightarrow> rs)), w''))
                  | None \<Rightarrow> (Inr [], w'))))"

section \<open>A host and a backend to run the code on\<close>

text \<open>
  The theorems below hold for every host and every backend. To run the code on concrete
  inputs, \<open>node\<close> is Node.js in a locale other than Turkish, Azeri and Lithuanian, with
  the Table Store SDK, whose \<^verbatim>\<open>Long.fromNumber\<close> is the constructor of
  \<^verbatim>\<open>int64-buffer\<close>.
\<close>

text \<open>
  The Number nearest to an integer: 53 significant bits, ties to the even significand,
  an infinity from \<open>2^1024\<close> on.
\<close>

function bit_length :: "int \<Rightarrow> nat" where
  "bit_length n = (if n \<le> 0 then 0 else Suc (bit_length (n div 2)))"
  by pat_completeness auto
termination
  by (relation "measure nat") auto

definition round_double :: "int \<Rightarrow> int" where
  "round_double n =
     (let e = bit_length n - 53;
          q = n div 2 ^ e;
          r = n mod 2 ^ e
      in if 2 ^ e < 2 * r \<or> (2 * r = 2 ^ e \<and> odd q) then (q + 1) * 2 ^ e else q * 2 ^ e)"

definition to_number :: "int \<Rightarrow> jsval" where
  "to_number n =
     (let m = round_double \<bar>n\<bar> in
      if 2 ^ 1024 \<le> m then (if n < 0 then NegInfinity else PosInfinity)
      else Num (sgn n * m))"

text \<open>
  A Number from \<open>10^21\<close> on prints in exponent notation, with one digit before the point:
  the first digit of the shortest decimal that reads back as the same double. That digit is
  the first digit of the number itself, unless the next round decimal above lies within
  half a unit of the last place.
\<close>

function decimal_digits :: "int \<Rightarrow> nat" where
  "decimal_digits n = (if n < 10 then 1 else Suc (decimal_digits (n div 10)))"
  by pat_completeness auto
termination
  by (relation "measure nat") auto

definition exponent_lead :: "int \<Rightarrow> int" where
  "exponent_lead n =
     (let e = bit_length n - 53;
          q = n div 2 ^ e;
          k = decimal_digits n - 1;
          d = n div 10 ^ k;
          above = (d + 1) * 10 ^ k;
          up = n + 2 ^ (e - 1)
      in if above < up \<or> (above = up \<and> even q) then (if d = 9 then 1 else d + 1) else d)"

text \<open>
  \<^verbatim>\<open>parseInt\<close> of a string: white space is skipped (the length in bytes of a white
  space or line terminator character at the front, or 0), then an optional sign, an
  optional \<^verbatim>\<open>0x\<close>, and the longest run of digits of the radix.
\<close>

definition space_prefix :: "string \<Rightarrow> nat" where
  "space_prefix s =
     (let b = map (of_char :: char \<Rightarrow> nat) (take 3 s) in
      if take 1 b \<in> set [[9], [10], [11], [12], [13], [32]] then 1
      else if take 2 b = [0xC2, 0xA0] then 2
      else if b \<in> set ([[0xE1, 0x9A, 0x80], [0xE2, 0x80, 0xA8], [0xE2, 0x80, 0xA9],
                         [0xE2, 0x80, 0xAF], [0xE2, 0x81, 0x9F], [0xE3, 0x80, 0x80],
                         [0xEF, 0xBB, 0xBF]]
                        @ map (\<lambda>x. [0xE2, 0x80, x]) [0x80 ..< 0x8B]) then 3
      else 0)"

fun skip_space :: "string \<Rightarrow> string" where
  "skip_space [] = []"
| "skip_space (c # cs) =
     (if space_prefix (c # cs) = 0 then c # cs
      else skip_space (drop (space_prefix (c # cs) - 1) cs))"

definition digit_of :: "char \<Rightarrow> nat" where
  "digit_of c =
     (let n = (of_char c :: nat) in
      if 48 \<le> n \<and> n \<le> 57 then n - 48
      else if 97 \<le> n \<and> n \<le> 122 then n - 87
      else if 65 \<le> n \<and> n \<le> 90 then n - 55
      else 36)"

definition js_parseInt_string :: "string \<Rightarrow> jsval" where
  "js_parseInt_string s =
     (let s1 = skip_space s;
          sign = (if take 1 s1 = ''-'' then - 1 else 1 :: int);
          s2 = (if take 1 s1 = ''-'' \<or> take 1 s1 = ''+'' then drop 1 s1 else s1);
          hex = (take 2 s2 = ''0x'' \<or> take 2 s2 = ''0X'');
          radix = (if hex then 16 else 10 :: int);
          s3 = (if hex then drop 2 s2 else s2);
          z = takeWhile (\<lambda>c. int (digit_of c) < radix) s3
      in if z = [] then NaN
         else to_number (sign * foldl (\<lambda>acc c. acc * radix + int (digit_of c)) 0 z))"

text \<open>
  \<^verbatim>\<open>parseInt\<close> of any value goes through the value's string: a Number below
  \<open>10^21\<close> prints its digits and reads back as itself, a Long prints its decimal digits, an
  array prints its elements with commas between them, so that the first element decides;
  every other value prints no digit at the front.
\<close>

fun js_parseInt :: "jsval \<Rightarrow> jsval" where
  "js_parseInt (Num n) =
     (let m = round_double \<bar>n\<bar> in
      if m < 10 ^ 21 then Num (sgn n * m)
      else if 2 ^ 1024 \<le> m then NaN
      else Num (sgn n * exponent_lead m))"
| "js_parseInt (Str s) = js_parseInt_string s"
| "js_parseInt (Long n) = to_number n"
| "js_parseInt (Arr (x # xs)) = js_parseInt x"
| "js_parseInt _ = NaN"

text \<open>
  \<^verbatim>\<open>Long.fromNumber\<close> never throws. It writes the eight bytes of a positive Number as
  they are; of a negative Number it writes the complement of the bytes of
  \<^verbatim>\<open>-(value + 1)\<close>, where the sum is a sum of doubles; every other Number gives zero,
  but for the negative infinity, whose bytes are all ones. It is applied to what
  \<^verbatim>\<open>parseInt\<close> returns, a Number; on other values this definition gives zero.
\<close>

definition wrap64 :: "int \<Rightarrow> int" where
  "wrap64 n = (n + 2 ^ 63) mod 2 ^ 64 - 2 ^ 63"

definition sdk_Long_fromNumber :: "jsval \<Rightarrow> error + jsval" where
  "sdk_Long_fromNumber v =
     (case v of
        Num n \<Rightarrow>
          if 0 < n then Inr (Long (wrap64 n))
          else if n < 0 then Inr (Long (wrap64 (- round_double \<bar>n + 1\<bar> - 1)))
          else Inr (Long 0)
      | NegInfinity \<Rightarrow> Inr (Long (- 1))
      | _ \<Rightarrow> Inr (Long 0))"

text \<open>
  \<^verbatim>\<open>toLocaleUpperCase\<close>: an ASCII letter and a character whose upper case is made of
  ASCII letters (the dotless i, the long s, the sharp s and the Latin ligatures) are
  upper-cased. Every other character is left as it is; the real function upper-cases it
  to characters outside ASCII again, so a string becomes one of the words PUT, INSERT,
  UPDATE and DELETE here exactly when it does there.
\<close>

definition ascii_upper :: "char \<Rightarrow> char" where
  "ascii_upper c =
     (let n = (of_char c :: nat) in if 97 \<le> n \<and> n \<le> 122 then char_of (n - 32) else c)"

definition upper_prefix :: "string \<Rightarrow> (string \<times> nat) option" where
  "upper_prefix s =
     (let b = map (of_char :: char \<Rightarrow> nat) (take 3 s) in
      if take 2 b = [0xC4, 0xB1] then Some (''I'', 2)
      else if take 2 b = [0xC5, 0xBF] then Some (''S'', 2)
      else if take 2 b = [0xC3, 0x9F] then Some (''SS'', 2)
      else if b = [0xEF, 0xAC, 0x80] then Some (''FF'', 3)
      else if b = [0xEF, 0xAC, 0x81] then Some (''FI'', 3)
      else if b = [0xEF, 0xAC, 0x82] then Some (''FL'', 3)
      else if b = [0xEF, 0xAC, 0x83] then Some (''FFI'', 3)
      else if b = [0xEF, 0xAC, 0x84] then Some (''FFL'', 3)
      else if b = [0xEF, 0xAC, 0x85] then Some (''ST'', 3)
      else if b = [0xEF, 0xAC, 0x86] then Some (''ST'', 3)
      else None)"

fun upper_string :: "string \<Rightarrow> string" where
  "upper_string [] = []"
| "upper_string (c # cs) =
     (case upper_prefix (c # cs) of
        Some (out, k) \<Rightarrow> out @ upper_string (drop (k - 1) cs)
      | None \<Rightarrow> ascii_upper c # upper_string cs)"

definition node :: host where
  "node = \<lparr> parseInt = js_parseInt,
            Long_fromNumber = sdk_Long_fromNumber,
            toLocaleUpperCase = upper_string \<rparr>"

text \<open>
  A backend in memory: its state is the ascending list of the ids it stores, the row of
  id \<open>n\<close> has the attribute \<open>v = n * n\<close>. A range scan answers with the first
  \<open>limit\<close> rows from the start key on and before the end key and, when more such rows
  follow, with the id of the next one as continuation key. A write is accepted; an item of
  a batch succeeds when it has a primary key.
\<close>

definition mem_item :: "int \<Rightarrow> data_item" where
  "mem_item n = \<lparr> data_primaryKey = Some [(''id'', Num n)],
                  data_attributes = Some [(''v'', Num (n * n))] \<rparr>"

definition mem_from :: "(string \<times> jsval) list \<Rightarrow> int \<Rightarrow> bool" where
  "mem_from key n = (case key of [(k, Num m)] \<Rightarrow> m \<le> n | _ \<Rightarrow> True)"

definition mem_before :: "(string \<times> jsval) list \<Rightarrow> int \<Rightarrow> bool" where
  "mem_before key n = (case key of [(k, Num m)] \<Rightarrow> n < m | _ \<Rightarrow> True)"

definition mem_getRange :: "int list \<Rightarrow> range_params \<Rightarrow> (error + range_response) \<times> int list" where
  "mem_getRange s p =
     (let cand = filter (\<lambda>n. mem_from (inclusiveStartPrimaryKey p) n
                              \<and> mem_before (exclusiveEndPrimaryKey p) n) s;
          n = nat (limit p) in
      (Inr \<lparr> resp_rows = Some (map mem_item (take n cand)),
              next_start_primary_key =
                (if n < length cand then Some [(''id'', Num (cand ! n))] else None) \<rparr>, s))"

definition mem_getRow :: "int list \<Rightarrow> get_params \<Rightarrow> (error + data_item option) \<times> int list" where
  "mem_getRow s p =
     (case g_primaryKey p of
        [(k, Num m)] \<Rightarrow>
          if m \<in> set s then (Inr (Some (mem_item m)), s)
          else (Inr None, s)
      | _ \<Rightarrow> (Inl (BackendError ''OTSParameterInvalid''), s))"

definition mem :: "int list store" where
  "mem = \<lparr> store_putRow = (\<lambda>s p. (Inr Null, s)),
           store_deleteRow = (\<lambda>s p. (Inr Null, s)),
           store_updateRow = (\<lambda>s p. (Inr Null, s)),
           store_batchWriteRow =
             (\<lambda>s ps. (Inr (map (\<lambda>(tn, items). (tn, map (\<lambda>item. primaryKey item \<noteq> []) items)) ps), s)),
           store_getRow = mem_getRow,
           store_getRange = mem_getRange \<rparr>"

text \<open>
  The same backend, insisting on a complete primary key of \<open>n\<close> components in a
  single-row write.
\<close>

definition strict_write :: "nat \<Rightarrow> int list \<Rightarrow> write_params \<Rightarrow> (error + jsval) \<times> int list" where
  "strict_write n s p =
     (if length (primaryKey p) = n then (Inr Null, s)
      else (Inl (BackendError ''OTSParameterInvalid''), s))"

definition strict :: "nat \<Rightarrow> int list store" where
  "strict n = mem \<lparr> store_putRow := strict_write n,
                      store_deleteRow := strict_write n,
                      store_updateRow := strict_write n \<rparr>"

definition users :: table where
  "users = \<lparr> tableName = ''users'',
             primaryKeys = [\<lparr>name = ''id'', type = OtherType ''INTEGER''\<rparr>] \<rparr>"

definition events :: table where
  "events = \<lparr> tableName = ''events'',
              primaryKeys = [\<lparr>name = ''uid'', type = StoreLong\<rparr>,
                             \<lparr>name = ''day'', type = OtherType ''STRING''\<rparr>] \<rparr>"

definition start :: "int list \<Rightarrow> int list world" where
  "start ids = \<lparr>bstate = ids, calls = []\<rparr>"

section \<open>What the specification says, to compare the code with\<close>

text \<open>
  The batch translator of the specification: an operation map is expanded, in map order
  and then array order, into one pair of resolved label and row for every row of every
  entry whose label is one of put, insert, update and delete (compared after
  upper-casing); an entry that is missing, \<^verbatim>\<open>null\<close> or empty expands to nothing.
\<close>

definition recognized :: "string \<Rightarrow> bool" where
  "recognized op = (op \<in> set [''PUT'', ''INSERT'', ''UPDATE'', ''DELETE''])"

definition entry_rows :: "row option list option \<Rightarrow> row option list" where
  "entry_rows v = (case v of None \<Rightarrow> [] | Some rs \<Rightarrow> rs)"

definition batch_pairs :: "host \<Rightarrow> opmap \<Rightarrow> (string \<times> row option) list" where
  "batch_pairs h obj =
     concat (map (\<lambda>(key, v).
                    if recognized (toLocaleUpperCase h key)
                    then map (Pair (toLocaleUpperCase h key)) (entry_rows v)
                    else [])
                 obj)"

text \<open>
  An entry of an operation map contributes to the batch when its label is recognized and
  its array holds a row.
\<close>

definition contributes :: "host \<Rightarrow> string \<times> row option list option \<Rightarrow> bool" where
  "contributes h ent = (recognized (toLocaleUpperCase h (fst ent)) \<and> entry_rows (snd ent) \<noteq> [])"




section \<open>Notions used in the statements\<close>

text \<open>The names of the schema's keys of the 64-bit integer type.\<close>

definition long_names :: "table \<Rightarrow> string list" where
  "long_names t = map name (filter (\<lambda>item. type item = StoreLong) (primaryKeys t))"

text \<open>The page size and page number a \<^verbatim>\<open>select\<close> is asked for, after the defaults.\<close>

definition opt_limit :: "select_options \<Rightarrow> int" where
  "opt_limit options = (case so_limit options of None \<Rightarrow> 10 | Some l \<Rightarrow> l)"

definition opt_page :: "select_options \<Rightarrow> int" where
  "opt_page options = (case so_page options of None \<Rightarrow> 1 | Some p \<Rightarrow> p)"

text \<open>
  The scan that follows a skip scan: the first request with the caller's columns, the page
  size as limit and the continuation key as start.
\<close>

definition second_scan :: "select_options \<Rightarrow> range_params \<Rightarrow> (string \<times> jsval) list \<Rightarrow> range_params" where
  "second_scan options params nk =
     params\<lparr> startColumn := (case so_startColumn options of None \<Rightarrow> Null | Some c \<Rightarrow> c),
             endColumn := (case so_endColumn options of None \<Rightarrow> Null | Some c \<Rightarrow> c),
             limit := opt_limit options,
             inclusiveStartPrimaryKey := nk \<rparr>"

text \<open>The operation kinds the batch builder tags an item with.\<close>

definition backend_kind :: "write_params \<Rightarrow> bool" where
  "backend_kind item = (w_type item \<in> set [Some ''PUT'', Some ''UPDATE'', Some ''DELETE''])"

section \<open>Example data\<close>

text \<open>An operation map with a mixed-case label, an unknown label, a null and an empty entry.\<close>

definition example_opmap :: opmap where
  "example_opmap =
     [(''Insert'', Some [Some [(''id'', Num 1), (''note'', Str ''x'')]]),
      (''upsert'', Some [Some [(''id'', Num 2)]]),
      (''put'', None),
      (''update'', Some []),
      (''delete'', Some [Some [(''id'', Num 3)]])]"

text \<open>
  Twelve stored rows: a full scan with the page size 5 takes the three pages of
  \<open>example_pages\<close>, by the three requests of \<open>example_requests\<close>.
\<close>

definition example_ids :: "int list" where
  "example_ids = [1, 2, 3, 4, 5, 6, 7, 8, 9, 10, 11, 12]"





definition page_request :: "int \<Rightarrow> int \<Rightarrow> select_options" where
  "page_request p l = \<lparr> so_where = None, so_limit = Some l, so_page = Some p,
                         so_startColumn = None, so_endColumn = None \<rparr>"

section \<open>The primary-key conversion\<close>

lemma forEach_pk_acc:
  "forEach (parseRowToPrimaryKey_item h obj dv) pks acc =
     (case forEach (parseRowToPrimaryKey_item h obj dv) pks [] of
        Inl e \<Rightarrow> Inl e
      | Inr ys \<Rightarrow> Inr (acc @ ys))"
proof (induction pks arbitrary: acc)
  case Nil
  then show ?case by simp
next
  case (Cons item pks)
  show ?case
  proof (cases "parseRowToPrimaryKey_item h obj dv item []")
    case (Inl e)
    then have "parseRowToPrimaryKey_item h obj dv item acc = Inl e"
      by (auto simp: parseRowToPrimaryKey_item_def Let_def split: if_splits sum.splits)
    with Inl show ?thesis by simp
  next
    case (Inr ys)
    then have "parseRowToPrimaryKey_item h obj dv item acc = Inr (acc @ ys)"
      by (auto simp: parseRowToPrimaryKey_item_def Let_def split: if_splits sum.splits)
    with Inr show ?thesis
      using Cons.IH [of ys] Cons.IH [of "acc @ ys"]
      by (simp split: sum.splits)
  qed
qed

text \<open>What one descriptor contributes.\<close>

lemma pk_item_cases:
  "parseRowToPrimaryKey_item h obj dv item [] = Inr ys \<Longrightarrow>
     (hasOwnProperty obj (name item) \<and> type item = StoreLong \<and>
        (\<exists>v'. Long_fromNumber h (parseInt h (get_prop obj (name item))) = Inr v' \<and> ys = [(name item, v')]))
   \<or> (hasOwnProperty obj (name item) \<and> type item \<noteq> StoreLong \<and> ys = [(name item, get_prop obj (name item))])
   \<or> (\<not> hasOwnProperty obj (name item) \<and> dv \<noteq> Undefined \<and> ys = [(name item, dv)])
   \<or> (\<not> hasOwnProperty obj (name item) \<and> dv = Undefined \<and> ys = [])"
  by (auto simp: parseRowToPrimaryKey_item_def Let_def split: if_splits sum.splits)

lemma pk_item_fails:
  "parseRowToPrimaryKey_item h obj dv item [] = Inl e \<Longrightarrow>
     hasOwnProperty obj (name item) \<and> type item = StoreLong \<and>
     Long_fromNumber h (parseInt h (get_prop obj (name item))) = Inl e"
  by (auto simp: parseRowToPrimaryKey_item_def Let_def split: if_splits sum.splits)

lemma forEach_pk_Cons:
  "forEach (parseRowToPrimaryKey_item h obj dv) (item # pks) [] =
     (case parseRowToPrimaryKey_item h obj dv item [] of
        Inl e \<Rightarrow> Inl e
      | Inr ys \<Rightarrow>
          (case forEach (parseRowToPrimaryKey_item h obj dv) pks [] of
             Inl e \<Rightarrow> Inl e
           | Inr zs \<Rightarrow> Inr (ys @ zs)))"
proof (cases "parseRowToPrimaryKey_item h obj dv item []")
  case (Inl e)
  then show ?thesis by simp
next
  case (Inr ys)
  then show ?thesis
    using forEach_pk_acc [of h obj dv pks ys] by simp
qed

lemma forEach_pk_names:
  "forEach (parseRowToPrimaryKey_item h obj dv) pks [] = Inr arr \<Longrightarrow>
     map fst arr = filter (\<lambda>k. hasOwnProperty obj k \<or> dv \<noteq> Undefined) (map name pks)"
proof (induction pks arbitrary: arr)
  case Nil
  then show ?case by simp
next
  case (Cons item pks)
  from Cons.prems [unfolded forEach_pk_Cons] obtain ys zs where
    ys: "parseRowToPrimaryKey_item h obj dv item [] = Inr ys" and
    zs: "forEach (parseRowToPrimaryKey_item h obj dv) pks [] = Inr zs" and
    arr: "arr = ys @ zs"
    by (auto split: sum.splits)
  from pk_item_cases [OF ys] Cons.IH [OF zs] arr show ?case
    by auto
qed

lemma forEach_pk_fallback:
  "forEach (parseRowToPrimaryKey_item h obj dv) pks [] = Inr arr \<Longrightarrow>
     (k, v) \<in> set arr \<Longrightarrow> \<not> hasOwnProperty obj k \<Longrightarrow> v = dv"
proof (induction pks arbitrary: arr)
  case Nil
  then show ?case by simp
next
  case (Cons item pks)
  from Cons.prems(1) [unfolded forEach_pk_Cons] obtain ys zs where
    ys: "parseRowToPrimaryKey_item h obj dv item [] = Inr ys" and
    zs: "forEach (parseRowToPrimaryKey_item h obj dv) pks [] = Inr zs" and
    arr: "arr = ys @ zs"
    by (auto split: sum.splits)
  from pk_item_cases [OF ys] Cons.IH [OF zs] arr Cons.prems(2,3) show ?case
    by auto
qed

lemma forEach_pk_failure:
  "forEach (parseRowToPrimaryKey_item h obj dv) pks [] = Inl e \<Longrightarrow>
     \<exists>item \<in> set pks. hasOwnProperty obj (name item) \<and> type item = StoreLong \<and>
        Long_fromNumber h (parseInt h (get_prop obj (name item))) = Inl e"
proof (induction pks)
  case Nil
  then show ?case by simp
next
  case (Cons item pks)
  from Cons.prems [unfolded forEach_pk_Cons] Cons.IH show ?case
    by (auto split: sum.splits dest: pk_item_fails)
qed

lemma forEach_pk_entries:
  "forEach (parseRowToPrimaryKey_item h obj dv) pks [] = Inr arr \<Longrightarrow> (k, v) \<in> set arr \<Longrightarrow>
     \<exists>item \<in> set pks. name item = k \<and>
       (if hasOwnProperty obj k
        then (if type item = StoreLong
              then Long_fromNumber h (parseInt h (get_prop obj k)) = Inr v
              else v = get_prop obj k)
        else v = dv)"
proof (induction pks arbitrary: arr)
  case Nil
  then show ?case by simp
next
  case (Cons d pks)
  from Cons.prems(1) [unfolded forEach_pk_Cons] obtain ys zs where
    ys: "parseRowToPrimaryKey_item h obj dv d [] = Inr ys" and
    zs: "forEach (parseRowToPrimaryKey_item h obj dv) pks [] = Inr zs" and
    arr: "arr = ys @ zs"
    by (auto split: sum.splits)
  from Cons.prems(2) arr consider "(k, v) \<in> set ys" | "(k, v) \<in> set zs" by auto
  then show ?case
  proof cases
    case 1
    with pk_item_cases [OF ys] show ?thesis by auto
  next
    case 2
    from Cons.IH [OF zs 2] show ?thesis by auto
  qed
qed

lemma forEach_pk_long_entry:
  "forEach (parseRowToPrimaryKey_item h obj dv) pks [] = Inr arr \<Longrightarrow>
   item \<in> set pks \<Longrightarrow> type item = StoreLong \<Longrightarrow> hasOwnProperty obj (name item) \<Longrightarrow>
     \<exists>v'. Long_fromNumber h (parseInt h (get_prop obj (name item))) = Inr v' \<and> (name item, v') \<in> set arr"
proof (induction pks arbitrary: arr)
  case Nil
  then show ?case by simp
next
  case (Cons d pks)
  from Cons.prems(1) [unfolded forEach_pk_Cons] obtain ys zs where
    ys: "parseRowToPrimaryKey_item h obj dv d [] = Inr ys" and
    zs: "forEach (parseRowToPrimaryKey_item h obj dv) pks [] = Inr zs" and
    arr: "arr = ys @ zs"
    by (auto split: sum.splits)
  show ?case
  proof (cases "item = d")
    case True
    with pk_item_cases [OF ys] Cons.prems(3,4) arr show ?thesis by auto
  next
    case False
    with Cons.prems(2) have "item \<in> set pks" by simp
    from Cons.IH [OF zs this Cons.prems(3,4)] arr show ?thesis by auto
  qed
qed

lemma forEach_pk_long_fails:
  "item \<in> set pks \<Longrightarrow> type item = StoreLong \<Longrightarrow> hasOwnProperty obj (name item) \<Longrightarrow>
   Long_fromNumber h (parseInt h (get_prop obj (name item))) = Inl e \<Longrightarrow>
     \<exists>e'. forEach (parseRowToPrimaryKey_item h obj dv) pks [] = Inl e'"
proof (cases "forEach (parseRowToPrimaryKey_item h obj dv) pks []")
  case (Inl e')
  then show ?thesis by simp
next
  case (Inr arr)
  assume "item \<in> set pks" "type item = StoreLong" "hasOwnProperty obj (name item)"
    "Long_fromNumber h (parseInt h (get_prop obj (name item))) = Inl e"
  with forEach_pk_long_entry [OF Inr] show ?thesis by fastforce
qed

lemmas run_pk = parseRowToPrimaryKey_def parseRowToPrimaryKey_item_def or_empty_def
  hasOwnProperty_def get_prop_def events_def users_def

lemmas run_batch = parseObjectToBatchWriteRows_def batch_key_def batch_item_def
  buildPutRowParams_def buildInsertRowParams_def buildUpdateRowParams_def buildDeleteRowParams_def
  parseRowToAttributeColumns_def parseRowToUpdateOfAttributeColumns_def

text \<open>
  Claim C8. The row-to-primary-key conversion goes through the descriptors in schema
  order. When it returns the array \<open>arr\<close>, the names in \<open>arr\<close> are, in schema order,
  those of the descriptors whose key the row has or, when a fallback is given
  (\<open>defaultValue\<close> is not \<open>Undefined\<close>), of all descriptors: a component the row
  lacks is left out when there is no fallback. Every component whose key the row lacks
  carries the fallback itself. The conversion raises only when the SDK's
  \<^verbatim>\<open>Long.fromNumber\<close> raises on a key that the row has; a key the row lacks never
  makes it fail.
\<close>

theorem rowToPrimaryKey_absent_component:
  "(parseRowToPrimaryKey h t obj defaultValue = Inr arr \<longrightarrow>
      map fst arr =
        filter (\<lambda>k. hasOwnProperty (or_empty obj) k \<or> defaultValue \<noteq> Undefined)
          (map name (primaryKeys t))
      \<and> (\<forall>(k, v) \<in> set arr. \<not> hasOwnProperty (or_empty obj) k \<longrightarrow> v = defaultValue))
   \<and> (parseRowToPrimaryKey h t obj defaultValue = Inl e \<longrightarrow>
        (\<exists>item \<in> set (primaryKeys t).
           hasOwnProperty (or_empty obj) (name item) \<and> type item = StoreLong \<and>
           Long_fromNumber h (parseInt h (get_prop (or_empty obj) (name item))) = Inl e))"
  unfolding parseRowToPrimaryKey_def
  using forEach_pk_names [of h "or_empty obj" defaultValue "primaryKeys t" arr]
    forEach_pk_fallback [of h "or_empty obj" defaultValue "primaryKeys t" arr]
    forEach_pk_failure [of h "or_empty obj" defaultValue "primaryKeys t" e]
  by auto

text \<open>
  On the table \<open>events\<close> (keys \<open>uid\<close>, \<open>day\<close>) and a row that has only \<open>day\<close>: with
  the fallback \<open>INF_MIN\<close> the component \<open>uid\<close> is the fallback, without a fallback it is
  left out.
\<close>

theorem rowToPrimaryKey_absent_component_witness:
  "parseRowToPrimaryKey node events (Some [(''day'', Str ''mon'')]) INF_MIN
     = Inr [(''uid'', INF_MIN), (''day'', Str ''mon'')]
   \<and> parseRowToPrimaryKey node events (Some [(''day'', Str ''mon'')]) Undefined
     = Inr [(''day'', Str ''mon'')]
   \<and> map fst [(''uid'', INF_MIN), (''day'', Str ''mon'')] = map name (primaryKeys events)"
proof -
  have run: "parseRowToPrimaryKey node events (Some [(''day'', Str ''mon'')]) INF_MIN
     = Inr [(''uid'', INF_MIN), (''day'', Str ''mon'')]"
    by (simp add: parseRowToPrimaryKey_def parseRowToPrimaryKey_item_def events_def or_empty_def
        hasOwnProperty_def get_prop_def)
  have run': "parseRowToPrimaryKey node events (Some [(''day'', Str ''mon'')]) Undefined
     = Inr [(''day'', Str ''mon'')]"
    by (simp add: parseRowToPrimaryKey_def parseRowToPrimaryKey_item_def events_def or_empty_def
        hasOwnProperty_def get_prop_def)
  from run run' rowToPrimaryKey_absent_component
    [of node events "Some [(''day'', Str ''mon'')]" INF_MIN "[(''uid'', INF_MIN), (''day'', Str ''mon'')]"]
  show ?thesis by (simp add: events_def)
qed

text \<open>
  Claim C5 says that a value that is not numeric makes the conversion of a 64-bit integer
  key fail. On Node.js with the SDK the conversion of \<^verbatim>\<open>{uid: 'abc', day: 'mon'}\<close> does
  not fail: \<^verbatim>\<open>parseInt('abc')\<close> is \<^verbatim>\<open>NaN\<close>, \<^verbatim>\<open>Long.fromNumber(NaN)\<close> is the
  Long zero, and that value is emitted for the key.
\<close>

theorem long_key_nonnumeric_counterexample:
  "parseRowToPrimaryKey node events (Some [(''uid'', Str ''abc''), (''day'', Str ''mon'')]) Undefined
     = Inr [(''uid'', Long 0), (''day'', Str ''mon'')]"
  by code_simp

text \<open>
  Claim C5, as the code has it. For a descriptor of the 64-bit integer type whose key the
  row has: when the conversion returns an array, the component of that key is
  \<^verbatim>\<open>Long.fromNumber(parseInt(value))\<close>; the conversion makes no check of its own, it fails
  when \<^verbatim>\<open>Long.fromNumber\<close> itself raises on that value, and then no array is
  returned; with a \<^verbatim>\<open>Long.fromNumber\<close> that never raises the conversion never fails,
  whatever the value is.
\<close>

theorem long_key_conversion:
  assumes "item \<in> set (primaryKeys t)" and "type item = StoreLong"
    and "hasOwnProperty (or_empty obj) (name item)"
  shows "(parseRowToPrimaryKey h t obj defaultValue = Inr arr \<longrightarrow>
            (\<exists>v'. Long_fromNumber h (parseInt h (get_prop (or_empty obj) (name item))) = Inr v'
                  \<and> (name item, v') \<in> set arr))
       \<and> (Long_fromNumber h (parseInt h (get_prop (or_empty obj) (name item))) = Inl e \<longrightarrow>
            (\<exists>e'. parseRowToPrimaryKey h t obj defaultValue = Inl e'))
       \<and> ((\<forall>v. \<exists>v'. Long_fromNumber h v = Inr v') \<longrightarrow>
            (\<exists>arr'. parseRowToPrimaryKey h t obj defaultValue = Inr arr'))"
proof (intro conjI impI)
  assume "parseRowToPrimaryKey h t obj defaultValue = Inr arr"
  then show "\<exists>v'. Long_fromNumber h (parseInt h (get_prop (or_empty obj) (name item))) = Inr v'
                  \<and> (name item, v') \<in> set arr"
    unfolding parseRowToPrimaryKey_def
    using forEach_pk_long_entry assms by blast
next
  assume "Long_fromNumber h (parseInt h (get_prop (or_empty obj) (name item))) = Inl e"
  then show "\<exists>e'. parseRowToPrimaryKey h t obj defaultValue = Inl e'"
    unfolding parseRowToPrimaryKey_def
    using forEach_pk_long_fails assms by blast
next
  assume total: "\<forall>v. \<exists>v'. Long_fromNumber h v = Inr v'"
  show "\<exists>arr'. parseRowToPrimaryKey h t obj defaultValue = Inr arr'"
  proof (cases "parseRowToPrimaryKey h t obj defaultValue")
    case (Inl e')
    then obtain d :: descriptor
      where "Long_fromNumber h (parseInt h (get_prop (or_empty obj) (name d))) = Inl e'"
      unfolding parseRowToPrimaryKey_def by (blast dest: forEach_pk_failure)
    with total show ?thesis by (metis sum.distinct(1))
  next
    case (Inr arr')
    then show ?thesis by blast
  qed
qed

text \<open>
  On the table \<open>events\<close>, the numeric string \<^verbatim>\<open>'42'\<close> for the key \<open>uid\<close> becomes the
  Long 42.
\<close>

theorem long_key_conversion_witness:
  "parseRowToPrimaryKey node events (Some [(''uid'', Str ''42''), (''day'', Str ''mon'')]) Undefined
     = Inr [(''uid'', Long 42), (''day'', Str ''mon'')]
   \<and> Long_fromNumber node (parseInt node (get_prop (or_empty (Some [(''uid'', Str ''42''), (''day'', Str ''mon'')])) ''uid''))
     = Inr (Long 42)
   \<and> hasOwnProperty (or_empty (Some [(''uid'', Str ''42''), (''day'', Str ''mon'')])) ''uid''"
proof -
  have item: "\<lparr>name = ''uid'', type = StoreLong\<rparr> \<in> set (primaryKeys events)"
    by (simp add: events_def)
  have own: "hasOwnProperty (or_empty (Some [(''uid'', Str ''42''), (''day'', Str ''mon'')]))
      (name \<lparr>name = ''uid'', type = StoreLong\<rparr>)"
    by (simp add: run_pk)
  have run: "parseRowToPrimaryKey node events (Some [(''uid'', Str ''42''), (''day'', Str ''mon'')]) Undefined
     = Inr [(''uid'', Long 42), (''day'', Str ''mon'')]"
    by code_simp
  have conv: "Long_fromNumber node (parseInt node
      (get_prop (or_empty (Some [(''uid'', Str ''42''), (''day'', Str ''mon'')])) ''uid'')) = Inr (Long 42)"
    by code_simp
  from long_key_conversion [OF item _ own, of node Undefined "[(''uid'', Long 42), (''day'', Str ''mon'')]"]
    run own conv
  show ?thesis by simp
qed

section \<open>Row validation\<close>

lemma validateRow_fold:
  "fold (\<lambda>item result. if \<not> hasOwnProperty r (name item) then False else result) pks b =
     (b \<and> (\<forall>item \<in> set pks. hasOwnProperty r (name item)))"
  by (induction pks arbitrary: b) auto

lemma hasOwnProperty_map_values:
  "hasOwnProperty (map (\<lambda>(k, v). (k, f k v)) r) key = hasOwnProperty r key"
  by (induction r) (auto simp: hasOwnProperty_def)

text \<open>
  Claim C9. \<^verbatim>\<open>validateRow\<close> is false for a falsy row; for a row object it is true
  exactly when the row has an own property for the name of every primary-key descriptor.
  Changing the values of the row, or dropping its attribute columns, does not change the
  result.
\<close>

theorem validateRow_iff:
  "validateRow t None = False
   \<and> validateRow t (Some r) = (\<forall>item \<in> set (primaryKeys t). hasOwnProperty r (name item))
   \<and> validateRow t (Some (map (\<lambda>(k, v). (k, f k v)) r)) = validateRow t (Some r)
   \<and> validateRow t (Some (filter (\<lambda>(k, v). k \<in> set (map name (primaryKeys t))) r))
       = validateRow t (Some r)"
proof -
  have "hasOwnProperty (filter (\<lambda>(k, v). k \<in> set (map name (primaryKeys t))) r) (name item)
          = hasOwnProperty r (name item)" if "item \<in> set (primaryKeys t)" for item
    using that by (force simp: hasOwnProperty_def)
  then show ?thesis
    by (simp add: validateRow_def validateRow_fold hasOwnProperty_map_values)
qed

text \<open>
  On the table \<open>events\<close>: a row with both keys is valid whatever the values are, a row
  without \<open>day\<close> is not.
\<close>

theorem validateRow_iff_witness:
  "validateRow events (Some [(''uid'', Num 7), (''day'', Null)]) = True
   \<and> validateRow events (Some [(''uid'', Num 7), (''note'', Str ''x'')]) = False
   \<and> validateRow events None = False"
  using validateRow_iff [of events "[(''uid'', Num 7), (''day'', Null)]"]
    validateRow_iff [of events "[(''uid'', Num 7), (''note'', Str ''x'')]"]
  by (simp add: events_def hasOwnProperty_def)

section \<open>The round trip through the put builder\<close>

lemma map_of_assign_all:
  "map_of (assign_all row items) = map_of row ++ map_of (rev items)"
proof (induction items arbitrary: row)
  case Nil
  then show ?case by (simp add: assign_all_def)
next
  case (Cons it items)
  obtain k v where it: "it = (k, v)" by (cases it)
  have "assign_all row (it # items) = assign_all (AList.update k v row) items"
    by (simp add: assign_all_def it)
  then show ?case
    using Cons.IH [of "AList.update k v row"]
    by (auto simp: it update_conv' map_add_def fun_upd_def split: option.splits intro!: ext)
qed

lemma get_prop_own:
  "hasOwnProperty obj k \<Longrightarrow> map_of obj k = Some (get_prop obj k)"
  by (auto simp: hasOwnProperty_def get_prop_def map_of_eq_None_iff split: option.splits)

lemma not_own_None:
  "\<not> hasOwnProperty obj k \<Longrightarrow> map_of obj k = None"
  by (simp add: hasOwnProperty_def map_of_eq_None_iff)

lemma map_of_rev_graph:
  "map_of (rev (map (\<lambda>key. (key, f key)) ks)) k = (if k \<in> set ks then Some (f k) else None)"
  by (induction ks) (auto simp: map_add_def split: option.splits)

text \<open>The attribute columns hold the fields that are not key names, with the row's values.\<close>

lemma map_of_rev_attrs:
  "map_of (rev (parseRowToAttributeColumns t (Some r))) k =
     (if k \<in> set (map name (primaryKeys t)) then None else map_of r k)"
  using get_prop_own [of r k] not_own_None [of r k]
  by (auto simp: parseRowToAttributeColumns_def or_empty_def hasOwnProperty_def map_of_rev_graph)

lemma map_of_rev_pk:
  assumes "forEach (parseRowToPrimaryKey_item h r Undefined) pks [] = Inr arr"
  shows "map_of (rev arr) k = None \<longleftrightarrow> \<not> (k \<in> set (map name pks) \<and> hasOwnProperty r k)"
    and "map_of (rev arr) k = Some v \<Longrightarrow> k \<notin> set (map name (filter (\<lambda>item. type item = StoreLong) pks))
          \<Longrightarrow> v = get_prop r k"
proof -
  from forEach_pk_names [OF assms]
  have "map fst arr = filter (hasOwnProperty r) (map name pks)" by simp
  then have "set (map fst arr) = {k \<in> set (map name pks). hasOwnProperty r k}"
    by (metis set_filter)
  then have "fst ` set (rev arr) = {k \<in> set (map name pks). hasOwnProperty r k}"
    by simp
  then show "map_of (rev arr) k = None \<longleftrightarrow> \<not> (k \<in> set (map name pks) \<and> hasOwnProperty r k)"
    unfolding map_of_eq_None_iff by blast
next
  assume "map_of (rev arr) k = Some v"
    and nl: "k \<notin> set (map name (filter (\<lambda>item. type item = StoreLong) pks))"
  then have "(k, v) \<in> set arr" by (auto dest: map_of_SomeD)
  from forEach_pk_entries [OF assms this] nl
  show "v = get_prop r k" by (auto simp: get_prop_def not_own_None split: if_splits)
qed

lemma round_trip_fields:
  assumes "buildPutRowParams h t (Some r) cond = Inr p"
  shows "map_of (parseParamsToRow p) k =
           (if k \<in> set (map name (primaryKeys t)) \<and> hasOwnProperty r k
            then map_of (rev (primaryKey p)) k else map_of r k)"
    and "forEach (parseRowToPrimaryKey_item h r Undefined) (primaryKeys t) [] = Inr (primaryKey p)"
proof -
  from assms have pk: "forEach (parseRowToPrimaryKey_item h r Undefined) (primaryKeys t) [] = Inr (primaryKey p)"
    and attrs: "attributeColumns p = Some (parseRowToAttributeColumns t (Some r))"
    by (auto simp: buildPutRowParams_def parseRowToPrimaryKey_def or_empty_def Let_def
        split: sum.splits)
  show "forEach (parseRowToPrimaryKey_item h r Undefined) (primaryKeys t) [] = Inr (primaryKey p)"
    by (fact pk)
  have "map_of (parseParamsToRow p) =
      map_of (rev (primaryKey p)) ++ map_of (rev (parseRowToAttributeColumns t (Some r)))"
    by (simp add: parseParamsToRow_def attrs map_of_assign_all Let_def)
  then show "map_of (parseParamsToRow p) k =
           (if k \<in> set (map name (primaryKeys t)) \<and> hasOwnProperty r k
            then map_of (rev (primaryKey p)) k else map_of r k)"
    using map_of_rev_pk(1) [OF pk, of k] not_own_None [of r k]
    by (auto simp: map_add_def map_of_rev_attrs split: option.splits)
qed

text \<open>
  Claim C4 says that the put builder followed by the params-to-row inversion gives back
  the original field-to-value mapping. On the table \<open>events\<close>, whose key \<open>uid\<close> has
  the 64-bit integer type, the number 7 comes back as the Long 7.
\<close>

theorem put_params_round_trip_counterexample:
  "map_sum id parseParamsToRow
     (buildPutRowParams node events
        (Some [(''uid'', Num 7), (''day'', Str ''mon''), (''note'', Str ''x'')]) None)
     = Inr [(''uid'', Long 7), (''day'', Str ''mon''), (''note'', Str ''x'')]
   \<and> map_of [(''uid'', Long 7), (''day'', Str ''mon''), (''note'', Str ''x'')] ''uid''
     \<noteq> map_of [(''uid'', Num 7), (''day'', Str ''mon''), (''note'', Str ''x'')] ''uid''"
  by code_simp

lemma find_append:
  "find P (xs @ ys) = (case find P xs of None \<Rightarrow> find P ys | Some x \<Rightarrow> Some x)"
  by (induction xs) simp_all

lemma find_None_names:
  "find (\<lambda>d. name d = k) ds = None \<longleftrightarrow> k \<notin> set (map name ds)"
  by (induction ds) auto

lemma map_of_rev_pk_last:
  assumes "forEach (parseRowToPrimaryKey_item h r dv) pks [] = Inr arr"
    and "hasOwnProperty r k"
    and "find (\<lambda>d. name d = k) (rev pks) = Some d"
  shows "\<exists>v. map_of (rev arr) k = Some v
           \<and> (if type d = StoreLong
               then Long_fromNumber h (parseInt h (get_prop r k)) = Inr v
               else v = get_prop r k)"
  using assms(1,3)
proof (induction pks arbitrary: arr)
  case Nil
  then show ?case by simp
next
  case (Cons d0 pks)
  from Cons.prems(1) [unfolded forEach_pk_Cons] obtain ys zs where
    ys: "parseRowToPrimaryKey_item h r dv d0 [] = Inr ys" and
    zs: "forEach (parseRowToPrimaryKey_item h r dv) pks [] = Inr zs" and
    arr: "arr = ys @ zs"
    by (auto split: sum.splits)
  have look: "map_of (rev arr) k = (case map_of (rev zs) k of None \<Rightarrow> map_of (rev ys) k | Some v \<Rightarrow> Some v)"
    by (simp add: arr map_add_def)
  show ?case
  proof (cases "find (\<lambda>d. name d = k) (rev pks)")
    case (Some d')
    with Cons.prems(2) have "d' = d" by (simp add: find_append)
    with Some Cons.IH [OF zs] obtain v where
      v: "map_of (rev zs) k = Some v"
        "if type d = StoreLong then Long_fromNumber h (parseInt h (get_prop r k)) = Inr v
         else v = get_prop r k"
      by blast
    with look show ?thesis by simp
  next
    case None
    then have "k \<notin> set (map name pks)"
      by (simp add: find_None_names)
    with forEach_pk_names [OF zs] have "k \<notin> fst ` set zs"
      by (metis filter_is_subset list.set_map subsetD)
    then have none: "map_of (rev zs) k = None"
      by (simp add: map_of_eq_None_iff)
    from None Cons.prems(2) have d: "d = d0" "name d0 = k"
      by (auto simp: find_append split: if_splits)
    from pk_item_cases [OF ys] assms(2) d have
      "\<exists>v. ys = [(k, v)]
         \<and> (if type d = StoreLong then Long_fromNumber h (parseInt h (get_prop r k)) = Inr v
             else v = get_prop r k)"
      by auto
    with look none show ?thesis by auto
  qed
qed

text \<open>
  Claim C4, as the code has it. When the put builder returns parameters, the row rebuilt
  from them has exactly the fields of the original row, and every field that is not the
  name of a key of the 64-bit integer type has its original value. A field that is the
  name of a key has the value its descriptor gives it (the last descriptor of that name in
  the schema): \<^verbatim>\<open>Long.fromNumber(parseInt(value))\<close> for a descriptor of the 64-bit
  integer type, the original value for any other. For a schema without a key of the 64-bit
  integer type the builder always returns parameters and the rebuilt row is the original
  field-to-value mapping. The order of keys and attributes plays no role, and the row need
  not have every key.
\<close>

theorem put_params_round_trip:
  "(buildPutRowParams h t (Some r) cond = Inr p \<longrightarrow>
      fst ` set (parseParamsToRow p) = fst ` set r
      \<and> (\<forall>k. k \<notin> set (long_names t) \<longrightarrow> map_of (parseParamsToRow p) k = map_of r k)
      \<and> (\<forall>k d. hasOwnProperty r k \<and> find (\<lambda>d. name d = k) (rev (primaryKeys t)) = Some d \<longrightarrow>
            (\<exists>v. map_of (parseParamsToRow p) k = Some v
                 \<and> (if type d = StoreLong
                     then Long_fromNumber h (parseInt h (get_prop r k)) = Inr v
                     else v = get_prop r k))))
   \<and> (set (long_names t) = {} \<longrightarrow>
        (\<exists>p'. buildPutRowParams h t (Some r) cond = Inr p'
              \<and> map_of (parseParamsToRow p') = map_of r))"
proof (intro conjI impI allI)
  assume b: "buildPutRowParams h t (Some r) cond = Inr p"
  note pk = round_trip_fields(2) [OF b]
  have "dom (map_of (parseParamsToRow p)) = dom (map_of r)"
  proof (rule set_eqI)
    fix k
    show "k \<in> dom (map_of (parseParamsToRow p)) \<longleftrightarrow> k \<in> dom (map_of r)"
      using round_trip_fields(1) [OF b, of k] map_of_rev_pk(1) [OF pk, of k] get_prop_own [of r k]
      by (auto simp: domIff split: if_splits)
  qed
  then show "fst ` set (parseParamsToRow p) = fst ` set r"
    by (simp add: dom_map_of_conv_image_fst)
next
  fix k
  assume b: "buildPutRowParams h t (Some r) cond = Inr p" and nl: "k \<notin> set (long_names t)"
  note pk = round_trip_fields(2) [OF b]
  show "map_of (parseParamsToRow p) k = map_of r k"
  proof (cases "k \<in> set (map name (primaryKeys t)) \<and> hasOwnProperty r k")
    case True
    with map_of_rev_pk(1) [OF pk, of k] obtain v where v: "map_of (rev (primaryKey p)) k = Some v"
      by auto
    from map_of_rev_pk(2) [OF pk v] nl have "v = get_prop r k"
      by (simp add: long_names_def)
    with True v round_trip_fields(1) [OF b, of k] get_prop_own [of r k] show ?thesis by simp
  next
    case False
    with round_trip_fields(1) [OF b, of k] show ?thesis by auto
  qed
next
  fix k and d :: descriptor
  assume b: "buildPutRowParams h t (Some r) cond = Inr p"
    and kd: "hasOwnProperty r k \<and> find (\<lambda>d. name d = k) (rev (primaryKeys t)) = Some d"
  note pk = round_trip_fields(2) [OF b]
  from kd have own: "hasOwnProperty r k"
    and last: "find (\<lambda>d. name d = k) (rev (primaryKeys t)) = Some d"
    by simp_all
  from last have "k \<in> set (map name (primaryKeys t))"
    using find_None_names [of k "rev (primaryKeys t)"] by auto
  with own round_trip_fields(1) [OF b, of k]
  have "map_of (parseParamsToRow p) k = map_of (rev (primaryKey p)) k" by simp
  with map_of_rev_pk_last [OF pk own last]
  show "\<exists>v. map_of (parseParamsToRow p) k = Some v
           \<and> (if type d = StoreLong
               then Long_fromNumber h (parseInt h (get_prop r k)) = Inr v
               else v = get_prop r k)"
    by simp
next
  assume nolong: "set (long_names t) = {}"
  show "\<exists>p'. buildPutRowParams h t (Some r) cond = Inr p' \<and> map_of (parseParamsToRow p') = map_of r"
  proof (cases "parseRowToPrimaryKey h t (Some r) Undefined")
    case (Inl e)
    then obtain item :: descriptor where "item \<in> set (primaryKeys t)" "type item = StoreLong"
      unfolding parseRowToPrimaryKey_def by (blast dest: forEach_pk_failure)
    with nolong show ?thesis by (auto simp: long_names_def)
  next
    case (Inr pk)
    then obtain p' where b: "buildPutRowParams h t (Some r) cond = Inr p'"
      by (simp add: buildPutRowParams_def Let_def)
    note pk = round_trip_fields(2) [OF b]
    have "map_of (parseParamsToRow p') k = map_of r k" for k
    proof (cases "k \<in> set (map name (primaryKeys t)) \<and> hasOwnProperty r k")
      case True
      with map_of_rev_pk(1) [OF pk, of k] obtain v where v: "map_of (rev (primaryKey p')) k = Some v"
        by auto
      from map_of_rev_pk(2) [OF pk v] nolong have "v = get_prop r k"
        by (auto simp: long_names_def)
      with True v round_trip_fields(1) [OF b, of k] get_prop_own [of r k] show ?thesis by simp
    next
      case False
      with round_trip_fields(1) [OF b, of k] show ?thesis by auto
    qed
    with b show ?thesis by blast
  qed
qed

text \<open>
  On the table \<open>users\<close>, which has no key of the 64-bit integer type, a row whose
  attribute comes before its key is rebuilt with the same mapping, in another order. On the
  table \<open>events\<close>, the key \<open>uid\<close> of the 64-bit integer type comes back as
  \<^verbatim>\<open>Long.fromNumber(parseInt('7'))\<close>, the Long 7.
\<close>

theorem put_params_round_trip_witness:
  "map_sum id parseParamsToRow
     (buildPutRowParams node users (Some [(''note'', Str ''x''), (''id'', Num 7)]) None)
     = Inr [(''id'', Num 7), (''note'', Str ''x'')]
   \<and> set (long_names users) = {}
   \<and> map_of [(''id'', Num 7), (''note'', Str ''x'')] = map_of [(''note'', Str ''x''), (''id'', Num 7)]
   \<and> map_sum id parseParamsToRow
       (buildPutRowParams node events (Some [(''note'', Str ''x''), (''uid'', Str ''7'')]) None)
       = Inr [(''uid'', Long 7), (''note'', Str ''x'')]
   \<and> find (\<lambda>d. name d = ''uid'') (rev (primaryKeys events)) = Some \<lparr>name = ''uid'', type = StoreLong\<rparr>
   \<and> Long_fromNumber node (parseInt node (get_prop [(''note'', Str ''x''), (''uid'', Str ''7'')] ''uid''))
       = Inr (Long 7)"
proof -
  have nolong: "set (long_names users) = {}"
    by (simp add: long_names_def users_def)
  have run: "map_sum id parseParamsToRow
     (buildPutRowParams node users (Some [(''note'', Str ''x''), (''id'', Num 7)]) None)
     = Inr [(''id'', Num 7), (''note'', Str ''x'')]"
    by code_simp
  have long: "map_sum id parseParamsToRow
       (buildPutRowParams node events (Some [(''note'', Str ''x''), (''uid'', Str ''7'')]) None)
       = Inr [(''uid'', Long 7), (''note'', Str ''x'')]
   \<and> find (\<lambda>d. name d = ''uid'') (rev (primaryKeys events)) = Some \<lparr>name = ''uid'', type = StoreLong\<rparr>
   \<and> Long_fromNumber node (parseInt node (get_prop [(''note'', Str ''x''), (''uid'', Str ''7'')] ''uid''))
       = Inr (Long 7)"
    by code_simp
  from put_params_round_trip [of node users "[(''note'', Str ''x''), (''id'', Num 7)]" None]
    put_params_round_trip [of node events "[(''note'', Str ''x''), (''uid'', Str ''7'')]" None]
    nolong run long
  show ?thesis by auto
qed

section \<open>Single-row and batch entry points\<close>

text \<open>
  Claim C7. With a falsy row argument each of \<^verbatim>\<open>put\<close>, \<^verbatim>\<open>insert\<close>,
  \<^verbatim>\<open>update\<close>, \<^verbatim>\<open>delete\<close> and \<^verbatim>\<open>get\<close> is rejected with the invalid-argument
  error, and with a falsy or empty rows array so is each of \<^verbatim>\<open>batchPut\<close>,
  \<^verbatim>\<open>batchInsert\<close>, \<^verbatim>\<open>batchUpdate\<close> and \<^verbatim>\<open>batchDelete\<close>; the world is the one
  before the call, so no backend call was issued.
\<close>

theorem falsy_argument_rejected:
  "put h t be None w = (Inl InvalidParam, w)
   \<and> insert_row h t be None w = (Inl InvalidParam, w)
   \<and> update_row h t be None w = (Inl InvalidParam, w)
   \<and> delete_row h t be None w = (Inl InvalidParam, w)
   \<and> get h t be None options w = (Inl InvalidParam, w)
   \<and> batchPut h t be None w = (Inl InvalidParam, w)
   \<and> batchPut h t be (Some []) w = (Inl InvalidParam, w)
   \<and> batchInsert h t be None w = (Inl InvalidParam, w)
   \<and> batchInsert h t be (Some []) w = (Inl InvalidParam, w)
   \<and> batchUpdate h t be None w = (Inl InvalidParam, w)
   \<and> batchUpdate h t be (Some []) w = (Inl InvalidParam, w)
   \<and> batchDelete h t be None w = (Inl InvalidParam, w)
   \<and> batchDelete h t be (Some []) w = (Inl InvalidParam, w)"
  by (simp add: put_def insert_row_def update_row_def delete_row_def get_def
      batchPut_def batchInsert_def batchUpdate_def batchDelete_def)

lemma issue_calls:
  "issue f tag params w = (r, w') \<Longrightarrow> calls w' = calls w @ [tag params]"
  by (auto simp: issue_def split: prod.splits)

lemma put_calls:
  assumes "parseRowToPrimaryKey h t (Some r) Undefined = Inr pk"
  shows "\<exists>p. calls (snd (put h t be (Some r) w)) = calls w @ [PutRow p] \<and> primaryKey p = pk"
proof -
  from assms obtain p where p: "buildPutRowParams h t (Some r) None = Inr p" "primaryKey p = pk"
    by (simp add: buildPutRowParams_def)
  obtain res w' where i: "issue (store_putRow be) PutRow p w = (res, w')"
    by (cases "issue (store_putRow be) PutRow p w")
  from issue_calls [OF i] p i show ?thesis
    by (cases res) (auto simp: put_def)
qed

lemma insert_calls:
  assumes "parseRowToPrimaryKey h t (Some r) Undefined = Inr pk"
  shows "\<exists>p. calls (snd (insert_row h t be (Some r) w)) = calls w @ [PutRow p] \<and> primaryKey p = pk"
proof -
  from assms obtain p where p: "buildInsertRowParams h t (Some r) None = Inr p" "primaryKey p = pk"
    by (simp add: buildInsertRowParams_def buildPutRowParams_def)
  obtain res w' where i: "issue (store_putRow be) PutRow p w = (res, w')"
    by (cases "issue (store_putRow be) PutRow p w")
  from issue_calls [OF i] p i show ?thesis
    by (cases res) (auto simp: insert_row_def)
qed

lemma update_calls:
  assumes "parseRowToPrimaryKey h t (Some r) Undefined = Inr pk"
  shows "\<exists>p. calls (snd (update_row h t be (Some r) w)) = calls w @ [UpdateRow p] \<and> primaryKey p = pk"
proof -
  from assms obtain p where p: "buildUpdateRowParams h t (Some r) None = Inr p" "primaryKey p = pk"
    by (simp add: buildUpdateRowParams_def Let_def)
  obtain res w' where i: "issue (store_updateRow be) UpdateRow p w = (res, w')"
    by (cases "issue (store_updateRow be) UpdateRow p w")
  from issue_calls [OF i] p i show ?thesis
    by (auto simp: update_row_def)
qed

lemma delete_calls:
  assumes "parseRowToPrimaryKey h t (Some r) Undefined = Inr pk"
  shows "\<exists>p. calls (snd (delete_row h t be (Some r) w)) = calls w @ [DeleteRow p] \<and> primaryKey p = pk"
proof -
  from assms obtain p where p: "buildDeleteRowParams h t (Some r) None = Inr p" "primaryKey p = pk"
    by (simp add: buildDeleteRowParams_def)
  obtain res w' where i: "issue (store_deleteRow be) DeleteRow p w = (res, w')"
    by (cases "issue (store_deleteRow be) DeleteRow p w")
  from issue_calls [OF i] p i show ?thesis
    by (cases res) (auto simp: delete_row_def)
qed

text \<open>
  Claim C6 says that a write of a row that lacks a primary-key component fails with a
  validation error before any backend call. On the table \<open>events\<close> (keys \<open>uid\<close>,
  \<open>day\<close>) the \<^verbatim>\<open>put\<close> of a row without \<open>uid\<close> issues \<^verbatim>\<open>putRow\<close> with the primary key
  \<^verbatim>\<open>[{day: 'mon'}]\<close> and resolves with the row.
\<close>

theorem write_without_key_component_counterexample:
  "put node events mem (Some [(''day'', Str ''mon''), (''note'', Str ''x'')]) (start [])
     = (Inr (Some [(''day'', Str ''mon''), (''note'', Str ''x'')]),
        \<lparr>bstate = [],
         calls = [PutRow \<lparr> w_tableName = Some ''events'',
                           condition = Condition IGNORE Null,
                           primaryKey = [(''day'', Str ''mon'')],
                           attributeColumns = Some [(''note'', Str ''x'')],
                           updateOfAttributeColumns = None,
                           returnContent = Some Primarykey,
                           w_type = None \<rparr>]\<rparr>)"
  by (simp add: put_def buildPutRowParams_def parseRowToAttributeColumns_def issue_def mem_def
      start_def run_pk)

lemma put_outcome:
  assumes "parseRowToPrimaryKey h t (Some r) Undefined = Inr pk"
  shows "put h t be (Some r) w =
           (case issue (store_putRow be) PutRow
                   \<lparr> w_tableName = Some (tableName t), condition = Condition IGNORE Null,
                     primaryKey = pk,
                     attributeColumns = Some (parseRowToAttributeColumns t (Some r)),
                     updateOfAttributeColumns = None, returnContent = Some Primarykey,
                     w_type = None \<rparr> w of
              (Inl e, w') \<Rightarrow> (Inl e, w')
            | (Inr x, w') \<Rightarrow> (Inr (Some r), w'))"
  using assms by (simp add: put_def buildPutRowParams_def)

lemma insert_outcome:
  assumes "parseRowToPrimaryKey h t (Some r) Undefined = Inr pk"
  shows "insert_row h t be (Some r) w =
           (case issue (store_putRow be) PutRow
                   \<lparr> w_tableName = Some (tableName t), condition = Condition EXPECT_NOT_EXIST Null,
                     primaryKey = pk,
                     attributeColumns = Some (parseRowToAttributeColumns t (Some r)),
                     updateOfAttributeColumns = None, returnContent = Some Primarykey,
                     w_type = None \<rparr> w of
              (Inl e, w') \<Rightarrow> (Inl e, w')
            | (Inr x, w') \<Rightarrow> (Inr (Some r), w'))"
  using assms by (simp add: insert_row_def buildInsertRowParams_def buildPutRowParams_def)

lemma update_outcome:
  assumes "parseRowToPrimaryKey h t (Some r) Undefined = Inr pk"
  shows "update_row h t be (Some r) w =
           issue (store_updateRow be) UpdateRow
             \<lparr> w_tableName = Some (tableName t), condition = Condition EXPECT_EXIST Null,
               primaryKey = pk,
               attributeColumns = Some (parseRowToUpdateOfAttributeColumns t (Some r)),
               updateOfAttributeColumns = Some (parseRowToUpdateOfAttributeColumns t (Some r)),
               returnContent = Some Primarykey, w_type = None \<rparr> w"
  using assms by (simp add: update_row_def buildUpdateRowParams_def Let_def)

lemma delete_outcome:
  assumes "parseRowToPrimaryKey h t (Some r) Undefined = Inr pk"
  shows "delete_row h t be (Some r) w =
           (case issue (store_deleteRow be) DeleteRow
                   \<lparr> w_tableName = Some (tableName t), condition = Condition IGNORE Null,
                     primaryKey = pk, attributeColumns = None,
                     updateOfAttributeColumns = None, returnContent = None,
                     w_type = None \<rparr> w of
              (Inl e, w') \<Rightarrow> (Inl e, w')
            | (Inr x, w') \<Rightarrow> (Inr (Some r), w'))"
  using assms by (simp add: delete_row_def buildDeleteRowParams_def)

text \<open>
  Claim C6, as the code has it. The write operations do not validate the row. For a row
  object whose key conversion returns \<open>pk\<close>, the names in \<open>pk\<close> are those of the
  descriptors whose key the row has (a component the row lacks is left out), and each of
  \<^verbatim>\<open>put\<close>, \<^verbatim>\<open>insert\<close>, \<^verbatim>\<open>update\<close> and \<^verbatim>\<open>delete\<close> issues exactly one backend call
  (\<^verbatim>\<open>putRow\<close>, \<^verbatim>\<open>putRow\<close>, \<^verbatim>\<open>updateRow\<close>, \<^verbatim>\<open>deleteRow\<close>) whose primary key is
  \<open>pk\<close>. The outcome is the backend's: the request is the one the builder makes of the
  row, with the operation's default condition; \<^verbatim>\<open>put\<close>, \<^verbatim>\<open>insert\<close> and
  \<^verbatim>\<open>delete\<close> are rejected with the backend's error when the backend rejects the call
  and resolve with the row when it answers, and \<^verbatim>\<open>update\<close> settles as the backend's
  call does.
\<close>

theorem write_without_key_component:
  assumes "parseRowToPrimaryKey h t (Some r) Undefined = Inr pk"
  shows "map fst pk = filter (hasOwnProperty r) (map name (primaryKeys t))
       \<and> (\<exists>p. calls (snd (put h t be (Some r) w)) = calls w @ [PutRow p] \<and> primaryKey p = pk)
       \<and> (\<exists>p. calls (snd (insert_row h t be (Some r) w)) = calls w @ [PutRow p] \<and> primaryKey p = pk)
       \<and> (\<exists>p. calls (snd (update_row h t be (Some r) w)) = calls w @ [UpdateRow p] \<and> primaryKey p = pk)
       \<and> (\<exists>p. calls (snd (delete_row h t be (Some r) w)) = calls w @ [DeleteRow p] \<and> primaryKey p = pk)
       \<and> put h t be (Some r) w =
           (case issue (store_putRow be) PutRow
                   \<lparr> w_tableName = Some (tableName t), condition = Condition IGNORE Null,
                     primaryKey = pk,
                     attributeColumns = Some (parseRowToAttributeColumns t (Some r)),
                     updateOfAttributeColumns = None, returnContent = Some Primarykey,
                     w_type = None \<rparr> w of
              (Inl e, w') \<Rightarrow> (Inl e, w')
            | (Inr x, w') \<Rightarrow> (Inr (Some r), w'))
       \<and> insert_row h t be (Some r) w =
           (case issue (store_putRow be) PutRow
                   \<lparr> w_tableName = Some (tableName t), condition = Condition EXPECT_NOT_EXIST Null,
                     primaryKey = pk,
                     attributeColumns = Some (parseRowToAttributeColumns t (Some r)),
                     updateOfAttributeColumns = None, returnContent = Some Primarykey,
                     w_type = None \<rparr> w of
              (Inl e, w') \<Rightarrow> (Inl e, w')
            | (Inr x, w') \<Rightarrow> (Inr (Some r), w'))
       \<and> update_row h t be (Some r) w =
           issue (store_updateRow be) UpdateRow
             \<lparr> w_tableName = Some (tableName t), condition = Condition EXPECT_EXIST Null,
               primaryKey = pk,
               attributeColumns = Some (parseRowToUpdateOfAttributeColumns t (Some r)),
               updateOfAttributeColumns = Some (parseRowToUpdateOfAttributeColumns t (Some r)),
               returnContent = Some Primarykey, w_type = None \<rparr> w
       \<and> delete_row h t be (Some r) w =
           (case issue (store_deleteRow be) DeleteRow
                   \<lparr> w_tableName = Some (tableName t), condition = Condition IGNORE Null,
                     primaryKey = pk, attributeColumns = None,
                     updateOfAttributeColumns = None, returnContent = None,
                     w_type = None \<rparr> w of
              (Inl e, w') \<Rightarrow> (Inl e, w')
            | (Inr x, w') \<Rightarrow> (Inr (Some r), w'))"
proof (intro conjI)
  show "map fst pk = filter (hasOwnProperty r) (map name (primaryKeys t))"
    using forEach_pk_names [of h r Undefined "primaryKeys t" pk] assms
    by (simp add: parseRowToPrimaryKey_def or_empty_def)
qed (rule put_calls [OF assms] insert_calls [OF assms] update_calls [OF assms]
      delete_calls [OF assms] put_outcome [OF assms] insert_outcome [OF assms]
      update_outcome [OF assms] delete_outcome [OF assms])+

text \<open>
  On the table \<open>events\<close> and a row without \<open>uid\<close>: the primary key is
  \<^verbatim>\<open>[{day: 'mon'}]\<close> and \<^verbatim>\<open>delete\<close> issues one call. On the backend \<open>mem\<close>, which
  accepts the call, \<^verbatim>\<open>put\<close> resolves with the row; on the backend \<open>strict\<close>, which
  refuses a primary key that is not complete, it is rejected with that backend's error.
\<close>

theorem write_without_key_component_witness:
  "parseRowToPrimaryKey node events (Some [(''day'', Str ''mon''), (''note'', Str ''x'')]) Undefined
     = Inr [(''day'', Str ''mon'')]
   \<and> map fst [(''day'', Str ''mon'')]
     = filter (hasOwnProperty [(''day'', Str ''mon''), (''note'', Str ''x'')]) (map name (primaryKeys events))
   \<and> length (calls (snd (delete_row node events mem (Some [(''day'', Str ''mon''), (''note'', Str ''x'')]) (start []))))
     = 1
   \<and> fst (put node events mem (Some [(''day'', Str ''mon''), (''note'', Str ''x'')]) (start []))
     = Inr (Some [(''day'', Str ''mon''), (''note'', Str ''x'')])
   \<and> fst (put node events (strict 2) (Some [(''day'', Str ''mon''), (''note'', Str ''x'')]) (start []))
     = Inl (BackendError ''OTSParameterInvalid'')
   \<and> length (calls (snd (put node events (strict 2) (Some [(''day'', Str ''mon''), (''note'', Str ''x'')]) (start []))))
     = 1"
proof -
  have run: "parseRowToPrimaryKey node events (Some [(''day'', Str ''mon''), (''note'', Str ''x'')]) Undefined
     = Inr [(''day'', Str ''mon'')]"
    by (simp add: run_pk)
  have accepted: "fst (put node events mem (Some [(''day'', Str ''mon''), (''note'', Str ''x'')]) (start []))
     = Inr (Some [(''day'', Str ''mon''), (''note'', Str ''x'')])"
    by code_simp
  have refused: "fst (put node events (strict 2) (Some [(''day'', Str ''mon''), (''note'', Str ''x'')]) (start []))
     = Inl (BackendError ''OTSParameterInvalid'')
   \<and> length (calls (snd (put node events (strict 2) (Some [(''day'', Str ''mon''), (''note'', Str ''x'')]) (start []))))
     = 1"
    by code_simp
  from write_without_key_component [OF run, of mem "start []"] run accepted refused
  show ?thesis by (auto simp: start_def)
qed

section \<open>The batch translator\<close>

lemma batch_item_acc:
  "batch_item h t op row acc =
     (case batch_item h t op row [] of Inl e \<Rightarrow> Inl e | Inr ys \<Rightarrow> Inr (acc @ ys))"
  by (simp add: batch_item_def split: sum.splits)

lemma batch_item_shape:
  "batch_item h t op row [] = Inr ys \<Longrightarrow>
     (recognized op \<and> (\<exists>item. ys = [item])) \<or> (\<not> recognized op \<and> ys = [])"
  by (auto simp: batch_item_def recognized_def split: if_splits sum.splits)

lemma batch_item_unrecognized:
  "\<not> recognized op \<Longrightarrow> batch_item h t op row acc = Inr acc"
  by (simp add: batch_item_def recognized_def)

lemma forEach_batch_item_acc:
  "forEach (batch_item h t op) rows acc =
     (case forEach (batch_item h t op) rows [] of Inl e \<Rightarrow> Inl e | Inr ys \<Rightarrow> Inr (acc @ ys))"
proof (induction rows arbitrary: acc)
  case Nil
  then show ?case by simp
next
  case (Cons row rows)
  show ?case
  proof (cases "batch_item h t op row []")
    case (Inl e)
    then show ?thesis using batch_item_acc [of h t op row acc] by simp
  next
    case (Inr ys)
    then have "batch_item h t op row acc = Inr (acc @ ys)"
      using batch_item_acc [of h t op row acc] by simp
    with Inr show ?thesis
      using Cons.IH [of ys] Cons.IH [of "acc @ ys"]
      by (simp split: sum.splits)
  qed
qed

lemma forEach_batch_item_unrecognized:
  "\<not> recognized op \<Longrightarrow> forEach (batch_item h t op) rows acc = Inr acc"
  by (induction rows) (simp_all add: batch_item_unrecognized)

lemma forEach_batch_item_rows:
  "recognized op \<Longrightarrow> forEach (batch_item h t op) rows [] = Inr items \<Longrightarrow>
     list_all2 (\<lambda>item row. batch_item h t op row [] = Inr [item]) items rows"
proof (induction rows arbitrary: items)
  case Nil
  then show ?case by simp
next
  case (Cons row rows)
  from Cons.prems(2) obtain ys where ys: "batch_item h t op row [] = Inr ys"
    and rest: "forEach (batch_item h t op) rows ys = Inr items"
    by (auto split: sum.splits)
  from batch_item_shape [OF ys] Cons.prems(1) obtain item where item: "ys = [item]" by auto
  from rest obtain zs where zs: "forEach (batch_item h t op) rows [] = Inr zs"
    and items: "items = ys @ zs"
    using forEach_batch_item_acc [of h t op rows ys] by (auto split: sum.splits)
  from Cons.IH [OF Cons.prems(1) zs] ys item items show ?case by simp
qed

text \<open>The loop body, for an entry whose value is known.\<close>

lemma batch_key_entry:
  "map_of obj key = Some v \<Longrightarrow>
     batch_key h t obj key acc = forEach (batch_item h t (toLocaleUpperCase h key)) (entry_rows v) acc"
  by (cases v) (auto simp: batch_key_def entry_rows_def Let_def split: option.splits)

lemma batch_key_acc:
  "batch_key h t obj key acc =
     (case batch_key h t obj key [] of Inl e \<Rightarrow> Inl e | Inr ys \<Rightarrow> Inr (acc @ ys))"
  using forEach_batch_item_acc [of h t "toLocaleUpperCase h key" _ acc]
  by (simp add: batch_key_def Let_def)

lemma forEach_batch_key_acc:
  "forEach (batch_key h t obj) keys acc =
     (case forEach (batch_key h t obj) keys [] of Inl e \<Rightarrow> Inl e | Inr ys \<Rightarrow> Inr (acc @ ys))"
proof (induction keys arbitrary: acc)
  case Nil
  then show ?case by simp
next
  case (Cons key keys)
  show ?case
  proof (cases "batch_key h t obj key []")
    case (Inl e)
    then show ?thesis using batch_key_acc [of h t obj key acc] by simp
  next
    case (Inr ys)
    then have "batch_key h t obj key acc = Inr (acc @ ys)"
      using batch_key_acc [of h t obj key acc] by simp
    with Inr show ?thesis
      using Cons.IH [of ys] Cons.IH [of "acc @ ys"]
      by (simp split: sum.splits)
  qed
qed

lemma forEach_batch_key_Cons:
  "forEach (batch_key h t obj) (key # keys) [] =
     (case batch_key h t obj key [] of
        Inl e \<Rightarrow> Inl e
      | Inr ys \<Rightarrow>
          (case forEach (batch_key h t obj) keys [] of
             Inl e \<Rightarrow> Inl e
           | Inr zs \<Rightarrow> Inr (ys @ zs)))"
proof (cases "batch_key h t obj key []")
  case (Inl e)
  then show ?thesis by simp
next
  case (Inr ys)
  then show ?thesis
    using forEach_batch_key_acc [of h t obj keys ys] by simp
qed

lemma forEach_batch_key_pairs:
  assumes "\<forall>(k, v) \<in> set ents. map_of obj k = Some v"
    and "forEach (batch_key h t obj) (map fst ents) [] = Inr items"
  shows "list_all2 (\<lambda>item (op, row). batch_item h t op row [] = Inr [item]) items (batch_pairs h ents)"
  using assms
proof (induction ents arbitrary: items)
  case Nil
  then show ?case by (simp add: batch_pairs_def)
next
  case (Cons ent ents)
  obtain k v where ent: "ent = (k, v)" by (cases ent)
  from Cons.prems(1) ent have look: "map_of obj k = Some v"
    and rest: "\<forall>(k, v) \<in> set ents. map_of obj k = Some v"
    by auto
  from Cons.prems(2) ent obtain ys zs where
    ys: "batch_key h t obj k [] = Inr ys" and
    zs: "forEach (batch_key h t obj) (map fst ents) [] = Inr zs" and
    items: "items = ys @ zs"
    by (auto simp only: list.map fst_conv forEach_batch_key_Cons split: sum.splits)
  let ?op = "toLocaleUpperCase h k"
  let ?R = "\<lambda>item (op, row). batch_item h t op row [] = Inr [item]"
  from ys look have run: "forEach (batch_item h t ?op) (entry_rows v) [] = Inr ys"
    by (simp add: batch_key_entry)
  have head: "list_all2 ?R ys
      (if recognized ?op then map (Pair ?op) (entry_rows v) else [])"
  proof (cases "recognized ?op")
    case True
    from forEach_batch_item_rows [OF True run] True show ?thesis
      by (simp add: list_all2_map2)
  next
    case False
    with run show ?thesis by (simp add: forEach_batch_item_unrecognized)
  qed
  from Cons.IH [OF rest zs] head items ent show ?case
    by (simp add: batch_pairs_def list_all2_appendI)
qed

lemma batch_key_skip:
  "map_of obj k = Some v \<Longrightarrow> \<not> contributes h (k, v) \<Longrightarrow> batch_key h t obj k acc = Inr acc"
  by (auto simp: batch_key_entry contributes_def forEach_batch_item_unrecognized)

lemma forEach_batch_key_filter:
  assumes "\<forall>(k, v) \<in> set ents. map_of obj k = Some v"
    and "\<forall>(k, v) \<in> set ents. contributes h (k, v) \<longrightarrow> map_of obj' k = Some v"
  shows "forEach (batch_key h t obj') (map fst (filter (contributes h) ents)) acc =
         forEach (batch_key h t obj) (map fst ents) acc"
  using assms
proof (induction ents arbitrary: acc)
  case Nil
  then show ?case by simp
next
  case (Cons ent ents)
  obtain k v where ent: "ent = (k, v)" by (cases ent)
  from Cons.prems ent have look: "map_of obj k = Some v"
    and look': "contributes h (k, v) \<Longrightarrow> map_of obj' k = Some v"
    and rest: "\<forall>(k, v) \<in> set ents. map_of obj k = Some v"
      "\<forall>(k, v) \<in> set ents. contributes h (k, v) \<longrightarrow> map_of obj' k = Some v"
    by auto
  show ?case
  proof (cases "contributes h (k, v)")
    case True
    from look look' [OF True] have "batch_key h t obj' k acc = batch_key h t obj k acc"
      by (simp add: batch_key_entry)
    with True ent Cons.IH [OF rest] show ?thesis
      by (simp split: sum.splits)
  next
    case False
    with ent look Cons.IH [OF rest] show ?thesis
      by (simp add: batch_key_skip)
  qed
qed

text \<open>
  Claim C10. For an operation map (an object: its labels are distinct), leaving out every
  entry whose upper-cased label is not PUT, INSERT, UPDATE or DELETE, and every entry that
  is missing, \<^verbatim>\<open>null\<close> or an empty array, does not change the result of the batch-item
  expansion. When the expansion returns a list, the list has exactly one item per row of
  the recognized entries, in map order and then array order, and the item is what the
  builder of the entry's label makes of that row.
\<close>

theorem batch_rows_of_recognized_entries:
  assumes "distinct (map fst obj)"
  shows "parseObjectToBatchWriteRows h t (filter (contributes h) obj)
           = parseObjectToBatchWriteRows h t obj
       \<and> (parseObjectToBatchWriteRows h t obj = Inr items \<longrightarrow>
            list_all2 (\<lambda>item (op, row). batch_item h t op row [] = Inr [item])
              items (batch_pairs h obj))"
proof -
  from assms have look: "\<forall>(k, v) \<in> set obj. map_of obj k = Some v"
    by auto
  from assms have "distinct (map fst (filter (contributes h) obj))"
    by (simp add: distinct_map_filter)
  then have look': "\<forall>(k, v) \<in> set obj. contributes h (k, v) \<longrightarrow>
      map_of (filter (contributes h) obj) k = Some v"
    by auto
  from forEach_batch_key_filter [OF look look'] forEach_batch_key_pairs [OF look]
  show ?thesis
    unfolding parseObjectToBatchWriteRows_def by blast
qed

text \<open>
  On \<open>example_opmap\<close>: only the entries \<^verbatim>\<open>Insert\<close> and \<^verbatim>\<open>delete\<close> contribute, one
  item each, in that order.
\<close>

theorem batch_rows_of_recognized_entries_witness:
  "distinct (map fst example_opmap)
   \<and> filter (contributes node) example_opmap =
       [(''Insert'', Some [Some [(''id'', Num 1), (''note'', Str ''x'')]]),
        (''delete'', Some [Some [(''id'', Num 3)]])]
   \<and> batch_pairs node example_opmap =
       [(''INSERT'', Some [(''id'', Num 1), (''note'', Str ''x'')]), (''DELETE'', Some [(''id'', Num 3)])]
   \<and> map_sum id (map primaryKey) (parseObjectToBatchWriteRows node users example_opmap)
       = Inr [[(''id'', Num 1)], [(''id'', Num 3)]]
   \<and> parseObjectToBatchWriteRows node users (filter (contributes node) example_opmap)
       = parseObjectToBatchWriteRows node users example_opmap"
proof -
  have d: "distinct (map fst example_opmap)"
    by (simp add: example_opmap_def)
  have f: "filter (contributes node) example_opmap =
       [(''Insert'', Some [Some [(''id'', Num 1), (''note'', Str ''x'')]]),
        (''delete'', Some [Some [(''id'', Num 3)]])]"
    by code_simp
  have p: "batch_pairs node example_opmap =
       [(''INSERT'', Some [(''id'', Num 1), (''note'', Str ''x'')]), (''DELETE'', Some [(''id'', Num 3)])]"
    by code_simp
  have r: "map_sum id (map primaryKey) (parseObjectToBatchWriteRows node users example_opmap)
       = Inr [[(''id'', Num 1)], [(''id'', Num 3)]]"
    by code_simp
  from batch_rows_of_recognized_entries [OF d, of node users] d f p r
  show ?thesis by simp
qed

lemma forEach_invariant:
  assumes "forEach f xs st = Inr st'" and "P st"
    and "\<And>x s s'. x \<in> set xs \<Longrightarrow> P s \<Longrightarrow> f x s = Inr s' \<Longrightarrow> P s'"
  shows "P st'"
  using assms
proof (induction xs arbitrary: st)
  case Nil
  then show ?case by simp
next
  case (Cons x xs)
  from Cons.prems(1) obtain s1 where s1: "f x st = Inr s1" and rest: "forEach f xs s1 = Inr st'"
    by (auto split: sum.splits)
  from Cons.prems(3) [of x st s1] s1 Cons.prems(2) have "P s1" by simp
  show ?case
    by (rule Cons.IH [OF rest \<open>P s1\<close>]) (use Cons.prems(3) in auto)
qed

lemma batch_item_kinds:
  "batch_item h t op row acc = Inr acc' \<Longrightarrow> list_all backend_kind acc \<Longrightarrow> list_all backend_kind acc'"
  by (auto simp: batch_item_def backend_kind_def split: if_splits sum.splits)

lemma batch_key_kinds:
  assumes "batch_key h t obj key acc = Inr acc'" and "list_all backend_kind acc"
  shows "list_all backend_kind acc'"
proof (cases "length (case map_of obj key of Some (Some rs) \<Rightarrow> rs | _ \<Rightarrow> []) = 0")
  case True
  with assms show ?thesis by (simp add: batch_key_def Let_def)
next
  case False
  with assms(1) have "forEach (batch_item h t (toLocaleUpperCase h key))
      (case map_of obj key of Some (Some rs) \<Rightarrow> rs | _ \<Rightarrow> []) acc = Inr acc'"
    by (simp add: batch_key_def Let_def)
  then show ?thesis
    by (rule forEach_invariant [where P = "list_all backend_kind"])
      (use assms(2) in \<open>auto intro: batch_item_kinds\<close>)
qed

lemma batch_rows_kinds:
  assumes "parseObjectToBatchWriteRows h t obj = Inr writeRows"
  shows "list_all backend_kind writeRows"
  by (rule forEach_invariant [OF assms [unfolded parseObjectToBatchWriteRows_def],
        where P = "list_all backend_kind"])
    (auto intro: batch_key_kinds)

lemma fold_bucket_item:
  "list_all backend_kind ws \<Longrightarrow>
     insert_rows (fold bucket_item ws b) = insert_rows b
   \<and> length (put_rows (fold bucket_item ws b)) + length (update_rows (fold bucket_item ws b))
       + length (delete_rows (fold bucket_item ws b))
     = length (put_rows b) + length (update_rows b) + length (delete_rows b) + length ws"
proof (induction ws arbitrary: b)
  case Nil
  then show ?case by simp
next
  case (Cons item ws)
  from Cons.prems have k: "backend_kind item" and ks: "list_all backend_kind ws" by simp_all
  from k have "insert_rows (bucket_item item b) = insert_rows b
    \<and> length (put_rows (bucket_item item b)) + length (update_rows (bucket_item item b))
        + length (delete_rows (bucket_item item b))
      = length (put_rows b) + length (update_rows b) + length (delete_rows b) + 1"
    by (auto simp: bucket_item_def backend_kind_def Let_def)
  with Cons.IH [OF ks, of "bucket_item item b"] show ?case by simp
qed

text \<open>
  Whatever the operation map and the backend's answer: the insert bucket of a batch write
  is empty, and the other three buckets hold one row per item the backend reported as
  successful.
\<close>

lemma batchWrite_insert_bucket:
  assumes "batchWrite h t be obj w = (Inr b, w')"
  shows "insert_rows b = []"
proof -
  from assms obtain writeRows where wr: "parseObjectToBatchWriteRows h t obj = Inr writeRows"
    by (auto simp: batchWrite_def split: sum.splits)
  note kinds = batch_rows_kinds [OF wr]
  have sub: "list_all backend_kind (map fst (filter P (zip writeRows is)))" for P
    and "is" :: "nat list"
    using kinds by (auto simp: list_all_iff dest: set_zip_leftD)
  have "insert_rows (parseBatchWriteRowsToObject ws) = []" if "list_all backend_kind ws" for ws
    using fold_bucket_item [OF that] by (simp add: parseBatchWriteRowsToObject_def)
  with assms wr sub show ?thesis
    by (auto simp: batchWrite_def Let_def split: sum.splits prod.splits option.splits if_splits)
qed

lemma length_filter_zip_index:
  "length xs = length ns \<Longrightarrow>
     length (map fst (filter (\<lambda>(item, i). P i) (zip xs ns))) = length (filter P ns)"
proof -
  assume len: "length xs = length ns"
  have "map snd (filter (\<lambda>(item, i). P i) (zip xs ns)) = filter P (map snd (zip xs ns))"
    by (simp add: filter_map comp_def case_prod_unfold)
  with len have "length (filter (\<lambda>(item, i). P i) (zip xs ns)) = length (filter P ns)"
    by (metis length_map map_snd_zip)
  then show ?thesis by simp
qed

lemma batchWrite_count:
  assumes "parseObjectToBatchWriteRows h t obj = Inr writeRows"
    and "issue (store_batchWriteRow be) BatchWriteRow [(tableName t, writeRows)] w = (Inr data, w')"
    and "map_of data (tableName t) = Some arr"
  shows "\<exists>b. batchWrite h t be obj w = (Inr b, w') \<and> insert_rows b = []
           \<and> length (put_rows b) + length (update_rows b) + length (delete_rows b)
             = length (filter (\<lambda>i. i < length arr \<and> arr ! i) [0..<length writeRows])"
proof -
  let ?ok = "map fst (filter (\<lambda>(item, i). i < length arr \<and> arr ! i)
                        (zip writeRows [0..<length writeRows]))"
  from assms have run: "batchWrite h t be obj w = (Inr (parseBatchWriteRowsToObject ?ok), w')"
    by (simp add: batchWrite_def Let_def)
  from batch_rows_kinds [OF assms(1)] have "list_all backend_kind ?ok"
    by (auto simp: list_all_iff dest: set_zip_leftD)
  from fold_bucket_item [OF this,
      of "\<lparr>put_rows = [], insert_rows = [], update_rows = [], delete_rows = []\<rparr>"]
  have "insert_rows (parseBatchWriteRowsToObject ?ok) = []
      \<and> length (put_rows (parseBatchWriteRowsToObject ?ok))
        + length (update_rows (parseBatchWriteRowsToObject ?ok))
        + length (delete_rows (parseBatchWriteRowsToObject ?ok)) = length ?ok"
    by (simp add: parseBatchWriteRowsToObject_def)
  moreover have "length ?ok = length (filter (\<lambda>i. i < length arr \<and> arr ! i) [0..<length writeRows])"
    by (rule length_filter_zip_index) simp
  ultimately show ?thesis using run by simp
qed

text \<open>
  Claim C3 says that the flat row of a successful item is put into the bucket of its
  originating operation: insert rows in \<^verbatim>\<open>insert\<close>. A batch write of one put row, two
  insert rows, the second of which the backend refuses, and one update row returns both
  successful put and insert rows in the bucket \<^verbatim>\<open>put\<close> and an empty bucket
  \<^verbatim>\<open>insert\<close>: the builder tags an insert item with the type \<^verbatim>\<open>'PUT'\<close>, so the
  case \<^verbatim>\<open>'INSERT'\<close> of \<^verbatim>\<open>__parseBatchWriteRowsToObject\<close> is never taken
  (\<open>batchWrite_insert_bucket\<close>). The update row comes back with its attributes under the
  one property \<^verbatim>\<open>PUT\<close>. The number of rows returned is the number of successes
  (\<open>batchWrite_count\<close>).
\<close>

theorem batch_insert_bucket:
  "fst (batchWrite node users mem
          [(''put'', Some [Some [(''id'', Num 1), (''note'', Str ''a'')]]),
           (''insert'', Some [Some [(''id'', Num 2), (''note'', Str ''b'')], Some [(''note'', Str ''c'')]]),
           (''update'', Some [Some [(''id'', Num 3), (''note'', Str ''d'')]])]
          (start []))
     = Inr \<lparr> put_rows = [[(''id'', Num 1), (''note'', Str ''a'')],
                          [(''id'', Num 2), (''note'', Str ''b'')]],
             insert_rows = [],
             update_rows = [[(''id'', Num 3), (''PUT'', Arr [Obj [(''note'', Str ''d'')]])]],
             delete_rows = [] \<rparr>"
  by code_simp

section \<open>The select paginator\<close>

lemma select_params_limit:
  "select_params h t options = Inr params \<Longrightarrow>
     limit params = (if opt_page options \<le> 1 then opt_limit options
                     else (opt_page options - 1) * opt_limit options)"
  by (auto simp: select_params_def opt_page_def opt_limit_def Let_def split: sum.splits)

text \<open>
  Claim C1. Let the first request of \<^verbatim>\<open>select\<close> be \<open>params\<close> and let the backend
  answer it with \<open>data\<close>. When the page is at most 1, the limit of \<open>params\<close> is the
  page size, \<^verbatim>\<open>select\<close> resolves with the converted rows of \<open>data\<close> and this scan is
  the only call. When the page is above 1, the limit of \<open>params\<close> is
  \<open>(page - 1) * limit\<close>; without a continuation key in \<open>data\<close>, \<^verbatim>\<open>select\<close> resolves
  with the empty sequence after this one call; with a continuation key \<open>nk\<close> it
  issues exactly one more scan, which starts at \<open>nk\<close> and has the page size as limit,
  and resolves with the converted rows of that scan.
\<close>

theorem select_scans:
  assumes "select_params h t options = Inr params"
    and "issue (store_getRange be) GetRange params w = (Inr data, w1)"
  shows "(opt_page options \<le> 1 \<and> resp_rows data = Some rs \<longrightarrow>
            limit params = opt_limit options
          \<and> select h t be options w = (Inr (map parseDataToRow rs), w1)
          \<and> calls w1 = calls w @ [GetRange params])
       \<and> (1 < opt_page options \<and> next_start_primary_key data = None \<longrightarrow>
            limit params = (opt_page options - 1) * opt_limit options
          \<and> select h t be options w = (Inr [], w1)
          \<and> calls w1 = calls w @ [GetRange params])
       \<and> (1 < opt_page options \<and> next_start_primary_key data = Some nk
          \<and> issue (store_getRange be) GetRange (second_scan options params nk) w1 = (Inr data', w2) \<longrightarrow>
            limit params = (opt_page options - 1) * opt_limit options
          \<and> limit (second_scan options params nk) = opt_limit options
          \<and> inclusiveStartPrimaryKey (second_scan options params nk) = nk
          \<and> select h t be options w =
              (Inr (map parseDataToRow (case resp_rows data' of None \<Rightarrow> [] | Some rs' \<Rightarrow> rs')), w2)
          \<and> calls w2 = calls w @ [GetRange params, GetRange (second_scan options params nk)])"
proof (intro conjI impI; (elim conjE)?)
  assume "opt_page options \<le> 1" "resp_rows data = Some rs"
  with assms show "select h t be options w = (Inr (map parseDataToRow rs), w1)"
    by (auto simp: select_def opt_page_def Let_def split: option.splits)
next
  assume "1 < opt_page options" "next_start_primary_key data = None"
  with assms show "select h t be options w = (Inr [], w1)"
    by (auto simp: select_def opt_page_def Let_def split: option.splits)
next
  assume "1 < opt_page options" "next_start_primary_key data = Some nk"
    "issue (store_getRange be) GetRange (second_scan options params nk) w1 = (Inr data', w2)"
  with assms show "select h t be options w =
      (Inr (map parseDataToRow (case resp_rows data' of None \<Rightarrow> [] | Some rs' \<Rightarrow> rs')), w2)"
    by (auto simp: select_def opt_page_def opt_limit_def second_scan_def Let_def split: option.splits)
next
  assume "issue (store_getRange be) GetRange (second_scan options params nk) w1 = (Inr data', w2)"
  from issue_calls [OF this] issue_calls [OF assms(2)]
  show "calls w2 = calls w @ [GetRange params, GetRange (second_scan options params nk)]"
    by simp
qed (use assms in \<open>auto simp: select_params_limit second_scan_def dest: issue_calls\<close>)

text \<open>
  On the twelve rows of \<open>example_ids\<close> with the page size 2: page 1 is rows 1 and 2
  after one scan; page 3 is rows 5 and 6 after a skip scan of limit 4 and a scan of limit 2;
  page 9 is empty after one skip scan of limit 16.
\<close>

theorem select_scans_witness:
  "fst (select node users mem (page_request 1 2) (start example_ids))
     = Inr (map (\<lambda>n. [(''id'', Num n), (''v'', Num (n * n))]) [1, 2])
   \<and> length (calls (snd (select node users mem (page_request 1 2) (start example_ids)))) = 1
   \<and> fst (select node users mem (page_request 3 2) (start example_ids))
     = Inr (map (\<lambda>n. [(''id'', Num n), (''v'', Num (n * n))]) [5, 6])
   \<and> map (\<lambda>c. case c of GetRange p \<Rightarrow> limit p | _ \<Rightarrow> 0)
        (calls (snd (select node users mem (page_request 3 2) (start example_ids)))) = [4, 2]
   \<and> select node users mem (page_request 9 2) (start example_ids)
     = (Inr [], \<lparr>bstate = example_ids,
                 calls = [GetRange \<lparr> r_tableName = ''users'', direction = FORWARD,
                                      inclusiveStartPrimaryKey = [(''id'', INF_MIN)],
                                      exclusiveEndPrimaryKey = [(''id'', INF_MAX)],
                                      startColumn = Str ''_'', endColumn = Str ''__'',
                                      limit = 16 \<rparr>]\<rparr>)"
proof -
  obtain params where p: "select_params node users (page_request 3 2) = Inr params"
    by (simp add: select_params_def page_request_def run_pk)
  obtain data w1 where i: "issue (store_getRange mem) GetRange params (start example_ids) = (Inr data, w1)"
    by (simp add: issue_def mem_def mem_getRange_def Let_def)
  have direct: ?thesis
    by code_simp
  from select_scans [OF p i] direct show ?thesis
    by simp
qed

section \<open>The range collector\<close>











end
